theory Spec2Isabelle
  imports Main "HOL-Library.Char_ord" "HOL-Library.List_Lexorder"
begin

section \<open>Go library functions the controller calls\<close>

text \<open>
  A Go \<open>string\<close> is a sequence of bytes, here a \<open>char list\<close>; etcd compares keys
  bytewise, which is the lexicographic order on \<open>char list\<close>. Go's \<open>int\<close> is 64 bits
  wide on the platforms the controller is built for: values are kept as \<open>int\<close> and the
  wrap-around of \<open>nextVersion++\<close> is written out in \<open>int_incr\<close>.
\<close>

definition is_digit :: "char \<Rightarrow> bool" where
  "is_digit c = (CHR ''0'' \<le> c \<and> c \<le> CHR ''9'')"

definition digit_val :: "char \<Rightarrow> nat" where
  "digit_val c = of_char c - 48"

definition digits_val :: "string \<Rightarrow> nat" where
  "digits_val ds = foldl (\<lambda>n c. n * 10 + digit_val c) 0 ds"

text \<open>
  \<open>strconv.ParseInt(s, 10, 64)\<close>: an optional sign, then one or more decimal digits and
  nothing else; \<open>None\<close> is the syntax or range error.
\<close>

definition ParseInt :: "string \<Rightarrow> int option" where
  "ParseInt s =
     (let neg = (s \<noteq> [] \<and> hd s = CHR ''-'');
          ds = (if s \<noteq> [] \<and> (hd s = CHR ''+'' \<or> hd s = CHR ''-'') then tl s else s)
      in if ds = [] \<or> \<not> list_all is_digit ds then None
         else let un = int (digits_val ds)
              in if \<not> neg \<and> un \<ge> 2 ^ 63 then None
                 else if neg \<and> un > 2 ^ 63 then None
                 else Some (if neg then - un else un))"

text \<open>\<open>strconv.Atoi\<close> is \<open>ParseInt(s, 10, 0)\<close> narrowed to \<open>int\<close>.\<close>

definition Atoi :: "string \<Rightarrow> int option" where
  "Atoi s = ParseInt s"

text \<open>
  The scanner of package \<open>fmt\<close>. \<open>space_len s\<close> is the number of bytes of a space rune at
  the head of \<open>s\<close> (the scanner's \<open>isSpace\<close> table, in UTF-8), the newline apart, and 0
  when \<open>s\<close> starts otherwise.
\<close>

definition space_len :: "string \<Rightarrow> nat" where
  "space_len s =
     (case s of
        [] \<Rightarrow> 0
      | c # r \<Rightarrow>
          if c = CHR 0x09 \<or> c = CHR 0x0B \<or> c = CHR 0x0C \<or> c = CHR 0x0D \<or> c = CHR 0x20 then 1
          else if take 2 s = [CHR 0xC2, CHR 0x85] \<or> take 2 s = [CHR 0xC2, CHR 0xA0] then 2
          else if take 3 s = [CHR 0xE1, CHR 0x9A, CHR 0x80] then 3
          else if take 2 s = [CHR 0xE2, CHR 0x80] \<and> length s \<ge> 3 \<and>
                  (CHR 0x80 \<le> s ! 2 \<and> s ! 2 \<le> CHR 0x8A \<or> s ! 2 = CHR 0xA8 \<or>
                   s ! 2 = CHR 0xA9 \<or> s ! 2 = CHR 0xAF) then 3
          else if take 3 s = [CHR 0xE2, CHR 0x81, CHR 0x9F] then 3
          else if take 3 s = [CHR 0xE3, CHR 0x80, CHR 0x80] then 3
          else 0)"

text \<open>
  \<open>SkipSpace\<close> under \<open>Sscanf\<close>: spaces are skipped, a newline is the error
  "unexpected newline" (\<open>None\<close>).
\<close>

function SkipSpace :: "string \<Rightarrow> string option" where
  "SkipSpace s =
     (if s = [] then Some []
      else if hd s = CHR 0x0A then None
      else if space_len s = 0 then Some s
      else SkipSpace (drop (space_len s) s))"
  by pat_completeness auto
termination
  by (relation "measure length") auto

declare SkipSpace.simps [simp del]

text \<open>
  \<open>fmt.Sscanf(s, "%d", &n)\<close>: leading spaces are skipped, then an optional sign and
  the longest run of decimal digits are read and handed to \<open>ParseInt\<close>; what follows the
  digits is left unread. \<open>None\<close> is any error (no input, no digit, a newline first, a
  value out of range).
\<close>

definition Sscanf_d :: "string \<Rightarrow> int option" where
  "Sscanf_d s =
     (case SkipSpace s of
        None \<Rightarrow> None
      | Some r \<Rightarrow>
          if r = [] then None
          else let sgn = (if hd r = CHR ''+'' \<or> hd r = CHR ''-'' then [hd r] else []);
                   r1 = drop (length sgn) r;
                   tok = takeWhile is_digit r1
               in if tok = [] then None else ParseInt (sgn @ tok))"

text \<open>\<open>fmt.Sprintf("%d", n)\<close>.\<close>

fun dec_digits :: "nat \<Rightarrow> string" where
  "dec_digits n =
     (if n < 10 then [''0123456789'' ! n]
      else dec_digits (n div 10) @ [''0123456789'' ! (n mod 10)])"

declare dec_digits.simps [simp del]

definition Sprintf_d :: "int \<Rightarrow> string" where
  "Sprintf_d n = (if n < 0 then CHR ''-'' # dec_digits (nat (- n)) else dec_digits (nat n))"

text \<open>\<open>n++\<close> on a Go \<open>int\<close>: the successor, wrapping at \<open>2^63\<close>.\<close>

definition int_incr :: "int \<Rightarrow> int" where
  "int_incr n = (n + 1 + 2 ^ 63) mod 2 ^ 64 - 2 ^ 63"

text \<open>\<open>strings.HasPrefix\<close>, the test behind \<open>clientv3.WithPrefix\<close>.\<close>

definition HasPrefix :: "string \<Rightarrow> string \<Rightarrow> bool" where
  "HasPrefix s p = (take (length p) s = p)"

section \<open>The key-value store\<close>

text \<open>
  The etcd client as the controller uses it: \<open>Get\<close> of one key, \<open>Get\<close> with
  \<open>WithPrefix\<close> (ascending by key, or \<open>SortByKey\<close>/\<open>SortDescend\<close>), \<open>Put\<close> and
  \<open>Delete\<close>. Every call may fail: \<open>faults\<close> is the schedule of the calls to come,
  \<open>True\<close> for a call that returns an error and leaves the store as it is; an empty
  schedule means that no further call fails. In \<open>kvs\<close> a key stands at most once.
\<close>

datatype error = EtcdError | JSONError | InvalidToken | UsernameNotFound | IndexOutOfRange

record EtcdClient =
  kvs :: "(string \<times> string) list"
  faults :: "bool list"

definition next_fault :: "EtcdClient \<Rightarrow> bool \<times> EtcdClient" where
  "next_fault st = (case faults st of [] \<Rightarrow> (False, st) | f # fs \<Rightarrow> (f, st\<lparr>faults := fs\<rparr>))"

definition etcd_Get :: "EtcdClient \<Rightarrow> string \<Rightarrow> (error + (string \<times> string) list) \<times> EtcdClient" where
  "etcd_Get st key =
     (case next_fault st of
        (True, st') \<Rightarrow> (Inl EtcdError, st')
      | (False, st') \<Rightarrow>
          (Inr (case map_of (kvs st') key of None \<Rightarrow> [] | Some v \<Rightarrow> [(key, v)]), st'))"

definition etcd_Get_WithPrefix :: "EtcdClient \<Rightarrow> string \<Rightarrow> (error + (string \<times> string) list) \<times> EtcdClient" where
  "etcd_Get_WithPrefix st p =
     (case next_fault st of
        (True, st') \<Rightarrow> (Inl EtcdError, st')
      | (False, st') \<Rightarrow> (Inr (sort_key fst (filter (\<lambda>kv. HasPrefix (fst kv) p) (kvs st'))), st'))"

definition etcd_Get_WithPrefix_SortDescend ::
  "EtcdClient \<Rightarrow> string \<Rightarrow> (error + (string \<times> string) list) \<times> EtcdClient" where
  "etcd_Get_WithPrefix_SortDescend st p =
     (case next_fault st of
        (True, st') \<Rightarrow> (Inl EtcdError, st')
      | (False, st') \<Rightarrow>
          (Inr (rev (sort_key fst (filter (\<lambda>kv. HasPrefix (fst kv) p) (kvs st')))), st'))"

definition etcd_Put :: "EtcdClient \<Rightarrow> string \<Rightarrow> string \<Rightarrow> (error + unit) \<times> EtcdClient" where
  "etcd_Put st key val =
     (case next_fault st of
        (True, st') \<Rightarrow> (Inl EtcdError, st')
      | (False, st') \<Rightarrow>
          (Inr (), st'\<lparr>kvs := (key, val) # filter (\<lambda>kv. fst kv \<noteq> key) (kvs st')\<rparr>))"

definition etcd_Delete :: "EtcdClient \<Rightarrow> string \<Rightarrow> (error + unit) \<times> EtcdClient" where
  "etcd_Delete st key =
     (case next_fault st of
        (True, st') \<Rightarrow> (Inl EtcdError, st')
      | (False, st') \<Rightarrow> (Inr (), st'\<lparr>kvs := filter (\<lambda>kv. fst kv \<noteq> key) (kvs st')\<rparr>))"

section \<open>Records of the REST server\<close>

record HSIConfig =
  UserID :: string
  VlanID :: string
  AccountName :: string
  Password :: string
  DHCPAddrPool :: string
  DHCPSubnet :: string
  DHCPGateway :: string

record HSIMetadata =
  Node :: string
  ResourceVersion :: string
  UpdatedBy :: string
  UpdatedAt :: string
  EnableStatus :: string

record HSIConfigWithMetadata =
  Config :: HSIConfig
  Metadata :: HSIMetadata

text \<open>Of \<open>SubscriberCountData\<close> the handlers below read the count only.\<close>

record SubscriberCountData =
  SubscriberCount :: string

text \<open>
  A value of a decoded \<open>map[string]interface{}\<close>: a JSON string, or anything else (kept
  as its JSON text).
\<close>

datatype jvalue = JString string | JOther string

type_synonym event = "string \<rightharpoonup> jvalue"

text \<open>
  \<open>jwt.Token\<close> after \<open>jwt.Parse\<close>: \<open>Valid\<close>, and of the claims what the server reads,
  \<open>claims["username"].(string)\<close> (\<open>None\<close> when the assertion fails).
\<close>

record jwt_Token =
  Valid :: bool
  claim_username :: "string option"

text \<open>
  What the server takes from outside its own code: the JWT library behind
  \<open>validateToken\<close> (with the server's secret, at the time of the request),
  \<open>encoding/json\<close> for each Go type the handlers decode into or encode from (\<open>None\<close>
  is a decoding error), and the clock, as \<open>time.Now().UTC().Format(time.RFC3339)\<close>.
\<close>

record env =
  validateToken :: "string \<Rightarrow> error + jwt_Token"
  Unmarshal_HSIConfigWithMetadata :: "string \<Rightarrow> HSIConfigWithMetadata option"
  Marshal_HSIConfigWithMetadata :: "HSIConfigWithMetadata \<Rightarrow> string"
  Unmarshal_SubscriberCountData :: "string \<Rightarrow> SubscriberCountData option"
  Unmarshal_map :: "string \<Rightarrow> event option"
  now_RFC3339 :: string

text \<open>The parts of a \<open>gin.Context\<close> the handlers read, and what they answer.\<close>

record request =
  param_uuid :: string
  param_nodeId :: string
  param_userId :: string
  header_Authorization :: string
  query_event_type :: string
  body_HSIConfig :: "HSIConfig option"

datatype body =
  H_error string
| H_message string
| H_user_ids "string list"
| H_events "event list"
| JSON_HSIConfigWithMetadata HSIConfigWithMetadata

type_synonym response = "nat \<times> body"

section \<open>The HSI configuration service\<close>

text \<open>
  The keys, as the handlers build them with \<open>fmt.Sprintf\<close>: \<open>"configs/%s/hsi/"\<close>,
  \<open>"configs/%s/hsi/%s"\<close> and \<open>"user_counts/%s/"\<close>.
\<close>

definition hsi_prefix :: "string \<Rightarrow> string" where
  "hsi_prefix nodeId = ''configs/'' @ nodeId @ ''/hsi/''"

definition hsi_key :: "string \<Rightarrow> string \<Rightarrow> string" where
  "hsi_key nodeId userId = ''configs/'' @ nodeId @ ''/hsi/'' @ userId"

definition count_key :: "string \<Rightarrow> string" where
  "count_key nodeId = ''user_counts/'' @ nodeId @ ''/''"

definition getUserFromToken :: "env \<Rightarrow> string \<Rightarrow> error + string" where
  "getUserFromToken E tokenString =
     (case validateToken E tokenString of
        Inl err \<Rightarrow> Inl InvalidToken
      | Inr token \<Rightarrow>
          if \<not> Valid token then Inl InvalidToken
          else (case claim_username token of
                  None \<Rightarrow> Inl UsernameNotFound
                | Some username \<Rightarrow> Inr username))"

definition getNextResourceVersion :: "env \<Rightarrow> EtcdClient \<Rightarrow> string \<Rightarrow> (error + string) \<times> EtcdClient" where
  "getNextResourceVersion E st etcdKey =
     (case etcd_Get st etcdKey of
        (Inl err, st') \<Rightarrow> (Inl err, st')
      | (Inr Kvs, st') \<Rightarrow>
          if length Kvs = 0 then (Inr ''1'', st')
          else (case Unmarshal_HSIConfigWithMetadata E (snd (hd Kvs)) of
                  None \<Rightarrow> (Inr ''2'', st')
                | Some existingConfig \<Rightarrow>
                    let currentVersion = ResourceVersion (Metadata existingConfig)
                    in if currentVersion = [] then (Inr ''2'', st')
                       else (case Sscanf_d currentVersion of
                               None \<Rightarrow> (Inr ''2'', st')
                             | Some nextVersion \<Rightarrow> (Inr (Sprintf_d (int_incr nextVersion)), st'))))"

text \<open>
  What \<open>getNextResourceVersion\<close> computes from what its read finds at the key
  (\<open>None\<close>: no record).
\<close>

definition version_after :: "env \<Rightarrow> string option \<Rightarrow> string" where
  "version_after E found =
     (case found of
        None \<Rightarrow> ''1''
      | Some v \<Rightarrow>
          (case Unmarshal_HSIConfigWithMetadata E v of
             None \<Rightarrow> ''2''
           | Some existingConfig \<Rightarrow>
               if ResourceVersion (Metadata existingConfig) = [] then ''2''
               else (case Sscanf_d (ResourceVersion (Metadata existingConfig)) of
                       None \<Rightarrow> ''2''
                     | Some nextVersion \<Rightarrow> Sprintf_d (int_incr nextVersion))))"

text \<open>The loop of \<open>isVlanInUse\<close> over the records read under the node's prefix.\<close>

fun isVlanInUse_scan :: "env \<Rightarrow> (string \<times> string) list \<Rightarrow> string \<Rightarrow> string \<Rightarrow> bool \<times> string" where
  "isVlanInUse_scan E [] vlanId currentUserId = (False, [])"
| "isVlanInUse_scan E (kv # rest) vlanId currentUserId =
     (case Unmarshal_HSIConfigWithMetadata E (snd kv) of
        None \<Rightarrow> isVlanInUse_scan E rest vlanId currentUserId
      | Some configWithMetadata \<Rightarrow>
          let config = Config configWithMetadata
          in if VlanID config = vlanId \<and> UserID config \<noteq> currentUserId
             then (True, UserID config)
             else isVlanInUse_scan E rest vlanId currentUserId)"

definition isVlanInUse ::
  "env \<Rightarrow> EtcdClient \<Rightarrow> string \<Rightarrow> string \<Rightarrow> string \<Rightarrow> (error + bool \<times> string) \<times> EtcdClient" where
  "isVlanInUse E st nodeId vlanId currentUserId =
     (case etcd_Get_WithPrefix st (hsi_prefix nodeId) of
        (Inl err, st') \<Rightarrow> (Inl err, st')
      | (Inr Kvs, st') \<Rightarrow> (Inr (isVlanInUse_scan E Kvs vlanId currentUserId), st'))"

definition isHSIConfigEnabled :: "env \<Rightarrow> EtcdClient \<Rightarrow> string \<Rightarrow> string \<Rightarrow> (error + string) \<times> EtcdClient" where
  "isHSIConfigEnabled E st nodeId userId =
     (case etcd_Get st (hsi_key nodeId userId) of
        (Inl err, st') \<Rightarrow> (Inl err, st')
      | (Inr Kvs, st') \<Rightarrow>
          if length Kvs = 0 then (Inr ''unknown'', st')
          else (case Unmarshal_HSIConfigWithMetadata E (snd (hd Kvs)) of
                  None \<Rightarrow> (Inl JSONError, st')
                | Some configWithMetadata \<Rightarrow> (Inr (EnableStatus (Metadata configWithMetadata)), st')))"

definition GetSubscriberCount :: "env \<Rightarrow> EtcdClient \<Rightarrow> string \<Rightarrow> int \<times> EtcdClient" where
  "GetSubscriberCount E st nodeId =
     (case etcd_Get st (count_key nodeId) of
        (Inl countErr, st') \<Rightarrow> (- 1, st')
      | (Inr Kvs, st') \<Rightarrow>
          if length Kvs > 0
          then (case Unmarshal_SubscriberCountData E (snd (hd Kvs)) of
                  None \<Rightarrow> (- 1, st')
                | Some countData \<Rightarrow>
                    (case Atoi (SubscriberCount countData) of
                       Some n \<Rightarrow> (n, st')
                     | None \<Rightarrow> (- 1, st')))
          else (- 1, st'))"

text \<open>
  The check of the required fields, the same block in \<open>CreateHSIConfig\<close> and
  \<open>UpdateHSIConfig\<close>: the message of the first field that is empty.
\<close>

definition required_field_missing :: "HSIConfig \<Rightarrow> string option" where
  "required_field_missing config =
     (if UserID config = [] then Some ''User ID is required''
      else if VlanID config = [] then Some ''VLAN ID is required''
      else if AccountName config = [] then Some ''Account Name is required''
      else if Password config = [] then Some ''Password is required''
      else if DHCPAddrPool config = [] then Some ''DHCP Address Pool is required''
      else if DHCPSubnet config = [] then Some ''DHCP Subnet is required''
      else if DHCPGateway config = [] then Some ''DHCP Gateway is required''
      else None)"

text \<open>
  The subscriber-count gate of the handlers: a count that is not negative, and a user id
  that \<open>Atoi\<close> reads as a number above it.
\<close>

definition exceeds_count :: "int \<Rightarrow> string \<Rightarrow> bool" where
  "exceeds_count subscriberCount userId =
     (if subscriberCount < 0 then False
      else (case Atoi userId of Some uidNum \<Rightarrow> uidNum > subscriberCount | None \<Rightarrow> False))"

definition CreateHSIConfig :: "env \<Rightarrow> EtcdClient \<Rightarrow> request \<Rightarrow> response \<times> EtcdClient" where
  "CreateHSIConfig E st c =
     (let nodeId = param_nodeId c
      in if nodeId = [] then ((400, H_error ''Node ID is required''), st)
      else (case body_HSIConfig c of
        None \<Rightarrow> ((400, H_error ''Invalid request''), st)
      | Some config \<Rightarrow>
      (case required_field_missing config of
        Some msg \<Rightarrow> ((400, H_error msg), st)
      | None \<Rightarrow>
      (case GetSubscriberCount E st nodeId of (subscriberCount, st1) \<Rightarrow>
      if exceeds_count subscriberCount (UserID config)
      then ((400, H_error ''User ID exceeds subscriber count''), st1)
      else (case isVlanInUse E st1 nodeId (VlanID config) (UserID config) of
        (Inl err, st2) \<Rightarrow> ((500, H_error ''Failed to check VLAN availability''), st2)
      | (Inr (inUse, existingUserId), st2) \<Rightarrow>
      if inUse
      then ((409, H_error (''Input VLAN has been already used by other user: '' @ existingUserId)), st2)
      else (case getUserFromToken E (header_Authorization c) of
        Inl err \<Rightarrow> ((401, H_error ''Failed to get user from token''), st2)
      | Inr username \<Rightarrow>
      (case getNextResourceVersion E st2 (hsi_key nodeId (UserID config)) of
        (Inl err, st3) \<Rightarrow> ((500, H_error ''Failed to get resource version''), st3)
      | (Inr resourceVersion, st3) \<Rightarrow>
      (let configWithMetadata =
             \<lparr>Config = config,
              Metadata = \<lparr>Node = nodeId, ResourceVersion = resourceVersion,
                          UpdatedBy = username, UpdatedAt = now_RFC3339 E,
                          EnableStatus = ''disabled''\<rparr>\<rparr>;
           etcdKey = hsi_key nodeId (UserID config)
       in (case etcd_Put st3 etcdKey (Marshal_HSIConfigWithMetadata E configWithMetadata) of
            (Inl err, st4) \<Rightarrow> ((500, H_error ''Failed to save HSI config''), st4)
          | (Inr u, st4) \<Rightarrow> ((200, H_message ''HSI config created successfully''), st4))))))))))"

definition UpdateHSIConfig :: "env \<Rightarrow> EtcdClient \<Rightarrow> request \<Rightarrow> response \<times> EtcdClient" where
  "UpdateHSIConfig E st c =
     (let nodeId = param_nodeId c; userId = param_userId c
      in if nodeId = [] \<or> userId = [] then ((400, H_error ''Node ID and User ID are required''), st)
      else (case body_HSIConfig c of
        None \<Rightarrow> ((400, H_error ''Invalid request''), st)
      | Some config \<Rightarrow>
      (case required_field_missing config of
        Some msg \<Rightarrow> ((400, H_error msg), st)
      | None \<Rightarrow>
      if UserID config \<noteq> userId then ((400, H_error ''User ID mismatch''), st)
      else (case GetSubscriberCount E st nodeId of (subscriberCount, st1) \<Rightarrow>
      if exceeds_count subscriberCount (UserID config)
      then ((400, H_error ''User ID exceeds subscriber count''), st1)
      else (case isVlanInUse E st1 nodeId (VlanID config) userId of
        (Inl err, st2) \<Rightarrow> ((500, H_error ''Failed to check VLAN availability''), st2)
      | (Inr (inUse, existingUserId), st2) \<Rightarrow>
      if inUse
      then ((409, H_error (''Input VLAN has been already used by other user: '' @ existingUserId)), st2)
      else (case getUserFromToken E (header_Authorization c) of
        Inl err \<Rightarrow> ((401, H_error ''Failed to get user from token''), st2)
      | Inr username \<Rightarrow>
      (let etcdKey = hsi_key nodeId userId
       in (case getNextResourceVersion E st2 etcdKey of
        (Inl err, st3) \<Rightarrow> ((500, H_error ''Failed to get resource version''), st3)
      | (Inr resourceVersion, st3) \<Rightarrow>
      (case isHSIConfigEnabled E st3 nodeId userId of
        (Inl err, st4) \<Rightarrow> ((500, H_error ''Failed to get current config status''), st4)
      | (Inr enableStatus, st4) \<Rightarrow>
      (let configWithMetadata =
             \<lparr>Config = config,
              Metadata = \<lparr>Node = nodeId, ResourceVersion = resourceVersion,
                          UpdatedBy = username, UpdatedAt = now_RFC3339 E,
                          EnableStatus = enableStatus\<rparr>\<rparr>
       in (case etcd_Put st4 etcdKey (Marshal_HSIConfigWithMetadata E configWithMetadata) of
            (Inl err, st5) \<Rightarrow> ((500, H_error ''Failed to update HSI config''), st5)
          | (Inr u, st5) \<Rightarrow> ((200, H_message ''HSI config updated successfully''), st5))))))))))))"

definition GetHSIConfig :: "env \<Rightarrow> EtcdClient \<Rightarrow> request \<Rightarrow> response \<times> EtcdClient" where
  "GetHSIConfig E st c =
     (let nodeId = param_nodeId c; userId = param_userId c
      in if nodeId = [] \<or> userId = [] then ((400, H_error ''Node ID and User ID are required''), st)
      else (case GetSubscriberCount E st nodeId of (subscriberCount, st1) \<Rightarrow>
      if exceeds_count subscriberCount userId
      then ((400, H_error ''User ID exceeds subscriber count''), st1)
      else (case etcd_Get st1 (hsi_key nodeId userId) of
        (Inl err, st2) \<Rightarrow> ((500, H_error ''Failed to get HSI config''), st2)
      | (Inr Kvs, st2) \<Rightarrow>
      if length Kvs = 0 then ((500, H_error ''HSI config not found''), st2)
      else (case Unmarshal_HSIConfigWithMetadata E (snd (hd Kvs)) of
        Some configWithMetadata \<Rightarrow> ((200, JSON_HSIConfigWithMetadata configWithMetadata), st2)
      | None \<Rightarrow> ((500, H_error ''Failed to parse HSI config''), st2)))))"

text \<open>The loop of \<open>GetHSIUserIds\<close> over the keys read under the node's prefix.\<close>

fun collect_user_ids :: "(string \<times> string) list \<Rightarrow> string \<Rightarrow> int \<Rightarrow> string list" where
  "collect_user_ids [] etcdHSIConfigKey subscriberCount = []"
| "collect_user_ids (kv # rest) etcdHSIConfigKey subscriberCount =
     (let key = fst kv
      in if length key > length etcdHSIConfigKey
         then (let userId = drop (length etcdHSIConfigKey) key
               in if subscriberCount \<ge> 0 \<and>
                     (case Atoi userId of Some uidNum \<Rightarrow> uidNum > subscriberCount | None \<Rightarrow> False)
                  then collect_user_ids rest etcdHSIConfigKey subscriberCount
                  else userId # collect_user_ids rest etcdHSIConfigKey subscriberCount)
         else collect_user_ids rest etcdHSIConfigKey subscriberCount)"

definition GetHSIUserIds :: "env \<Rightarrow> EtcdClient \<Rightarrow> request \<Rightarrow> response \<times> EtcdClient" where
  "GetHSIUserIds E st c =
     (let nodeId = param_nodeId c
      in if nodeId = [] then ((400, H_error ''Node ID is required''), st)
      else (let etcdHSIConfigKey = hsi_prefix nodeId
      in (case etcd_Get_WithPrefix st etcdHSIConfigKey of
        (Inl err, st1) \<Rightarrow> ((500, H_error ''Failed to get HSI user IDs''), st1)
      | (Inr Kvs, st1) \<Rightarrow>
      (case GetSubscriberCount E st1 nodeId of (subscriberCount, st2) \<Rightarrow>
        ((200, H_user_ids (collect_user_ids Kvs etcdHSIConfigKey subscriberCount)), st2)))))"

section \<open>Authentication middleware\<close>

text \<open>What a middleware does with the request: \<open>c.JSON\<close> and \<open>c.Abort()\<close>, or \<open>c.Next()\<close>.\<close>

datatype middleware = Aborted response | Next

definition AuthMiddlewareWithBlacklist :: "env \<Rightarrow> EtcdClient \<Rightarrow> request \<Rightarrow> middleware \<times> EtcdClient" where
  "AuthMiddlewareWithBlacklist E st c =
     (let authHeader = header_Authorization c
      in if authHeader = [] then (Aborted (401, H_error ''Missing Authorization header''), st)
      else if (case validateToken E authHeader of Inl err \<Rightarrow> True | Inr token \<Rightarrow> \<not> Valid token)
      then (Aborted (401, H_error ''Invalid token''), st)
      else (case etcd_Get st (''token_blacklist/'' @ authHeader) of
        (Inl err, st') \<Rightarrow> (Aborted (500, H_error ''Authentication service unavailable''), st')
      | (Inr Kvs, st') \<Rightarrow>
          if length Kvs > 0 then (Aborted (401, H_error ''Token has been revoked''), st')
          else (Next, st')))"

section \<open>Failed events\<close>

text \<open>The loop of \<open>GetFailedEvents\<close>: every value that decodes, in the order read.\<close>

fun decode_events :: "env \<Rightarrow> (string \<times> string) list \<Rightarrow> event list" where
  "decode_events E [] = []"
| "decode_events E (kv # rest) =
     (case Unmarshal_map E (snd kv) of
        None \<Rightarrow> decode_events E rest
      | Some event \<Rightarrow> event # decode_events E rest)"

definition GetFailedEvents :: "env \<Rightarrow> EtcdClient \<Rightarrow> request \<Rightarrow> response \<times> EtcdClient" where
  "GetFailedEvents E st c =
     (let nodeId = param_nodeId c
      in if nodeId = [] then ((400, H_error ''Node ID is required''), st)
      else (case etcd_Get_WithPrefix_SortDescend st (''failed_events_history/'' @ nodeId @ ''/'') of
        (Inl err, st') \<Rightarrow> ((500, H_error ''Failed to get failed events''), st')
      | (Inr Kvs, st') \<Rightarrow> ((200, H_events (decode_events E Kvs)), st')))"

text \<open>
  The loop of \<open>GetAllFailedEvents\<close>: with a filter, an event is skipped when its
  \<open>event_type\<close> is a string other than the filter.
\<close>

fun filter_events :: "env \<Rightarrow> (string \<times> string) list \<Rightarrow> string \<Rightarrow> event list" where
  "filter_events E [] eventTypeFilter = []"
| "filter_events E (kv # rest) eventTypeFilter =
     (case Unmarshal_map E (snd kv) of
        None \<Rightarrow> filter_events E rest eventTypeFilter
      | Some event \<Rightarrow>
          if eventTypeFilter \<noteq> [] \<and>
             (case event ''event_type'' of
                Some (JString eventType) \<Rightarrow> eventType \<noteq> eventTypeFilter
              | _ \<Rightarrow> False)
          then filter_events E rest eventTypeFilter
          else event # filter_events E rest eventTypeFilter)"

definition GetAllFailedEvents :: "env \<Rightarrow> EtcdClient \<Rightarrow> request \<Rightarrow> response \<times> EtcdClient" where
  "GetAllFailedEvents E st c =
     (let eventTypeFilter = query_event_type c
      in (case etcd_Get_WithPrefix_SortDescend st ''failed_events_history/'' of
        (Inl err, st') \<Rightarrow> ((500, H_error ''Failed to get failed events''), st')
      | (Inr Kvs, st') \<Rightarrow> ((200, H_events (filter_events E Kvs eventTypeFilter)), st')))"

section \<open>The node monitor manager\<close>

text \<open>
  The gauge vectors of \<open>NodeMetrics\<close>. A series of the registry is a vector with its
  label values, in the order the vector declares the labels; the registry maps a series
  to the sample its gauge was last set from.
\<close>

datatype metric =
  rxPackets | txPackets | rxBytes | txBytes | rxErrors | txErrors | rxDropped
| perUserRxPackets | perUserRxBytes | perUserTxPackets | perUserTxBytes
| perUserDropPackets | perUserDropBytes
| unknownUserRxPackets | unknownUserRxBytes | unknownUserTxPackets | unknownUserTxBytes
| unknownUserDropPackets | unknownUserDropBytes
| totalPPPoEDataSessions | totalPPPoEIPCPSessions | totalPPPoELCPSessions
| totalPPPoEAuthSessions | totalPPPoEInitSessions | totalPPPoETerminatedSessions
| totalPPPoENotConfiguredSessions | totalPPPoEErrorSessions
| perUserDhcpCurLeaseCount | perUserDhcpMaxLeaseCount
| totalRunningDhcpServer | totalStoppedDhcpServer | totalNotConfiguredDhcpServer
| perPPPoESessionRxPackets | perPPPoESessionRxBytes
| perPPPoESessionTxPackets | perPPPoESessionTxBytes

type_synonym series = "metric \<times> string list"

type_synonym registry = "series \<rightharpoonup> nat"

definition WithLabelValues_Set :: "registry \<Rightarrow> metric \<Rightarrow> string list \<Rightarrow> nat \<Rightarrow> registry" where
  "WithLabelValues_Set reg vec lvs v = reg((vec, lvs) \<mapsto> v)"

definition DeleteLabelValues :: "registry \<Rightarrow> metric \<Rightarrow> string list \<Rightarrow> registry" where
  "DeleteLabelValues reg vec lvs = reg((vec, lvs) := None)"

record NodeMonitor =
  nodeUUID :: string
  nodeIP :: string

text \<open>
  The manager: the map of the monitors and the registry of the gauges; \<open>stopped\<close> lists
  the monitors whose context was cancelled and whose connection was closed, last first.
\<close>

record NodeMonitorManager =
  monitors :: "string \<rightharpoonup> NodeMonitor"
  metrics :: registry
  stopped :: "NodeMonitor list"

text \<open>The body of the loop of \<open>deleteNodeMetrics\<close>, for one NIC index.\<close>

definition deleteNicMetrics :: "registry \<Rightarrow> string \<Rightarrow> string \<Rightarrow> registry" where
  "deleteNicMetrics reg uuid nicIndex =
     fold (\<lambda>vec r. DeleteLabelValues r vec [uuid, nicIndex])
       [rxPackets, txPackets, rxBytes, txBytes, rxErrors, txErrors, rxDropped] reg"

definition deleteNodeMetrics :: "registry \<Rightarrow> string \<Rightarrow> registry" where
  "deleteNodeMetrics reg uuid =
     fold (\<lambda>i r. deleteNicMetrics r uuid (Sprintf_d i)) [0, 1] reg"

definition stopMonitoringLocked :: "NodeMonitorManager \<Rightarrow> string \<Rightarrow> NodeMonitorManager" where
  "stopMonitoringLocked nmm uuid =
     (case monitors nmm uuid of
        None \<Rightarrow> nmm
      | Some monitor \<Rightarrow>
          nmm\<lparr>stopped := monitor # stopped nmm,
              metrics := deleteNodeMetrics (metrics nmm) uuid,
              monitors := (monitors nmm)(uuid := None)\<rparr>)"

definition StopMonitoring :: "NodeMonitorManager \<Rightarrow> string \<Rightarrow> NodeMonitorManager" where
  "StopMonitoring nmm uuid = stopMonitoringLocked nmm uuid"

subsection \<open>Scraping the NIC counters\<close>

text \<open>
  The messages of \<open>GetFastrgSystemInfo\<close>, with the fields \<open>getNicCounter\<close> reads. The
  counters are unsigned 64-bit numbers, the user id an unsigned number.
\<close>

record PerUserStat =
  UserId :: nat
  user_RxPackets :: nat
  user_RxBytes :: nat
  user_TxPackets :: nat
  user_TxBytes :: nat
  DroppedPackets :: nat
  DroppedBytes :: nat

record NicStat =
  RxPackets :: nat
  TxPackets :: nat
  RxBytes :: nat
  TxBytes :: nat
  RxErrors :: nat
  TxErrors :: nat
  RxDropped :: nat
  PerUserStats :: "PerUserStat list"

text \<open>\<open>xs[i]\<close> on a Go slice: an index outside \<open>0 .. len(xs) - 1\<close> panics.\<close>

definition index :: "'a list \<Rightarrow> int \<Rightarrow> error + 'a" where
  "index xs i = (if 0 \<le> i \<and> i < int (length xs) then Inr (xs ! nat i) else Inl IndexOutOfRange)"

definition set_user_gauges :: "registry \<Rightarrow> string \<Rightarrow> string \<Rightarrow> PerUserStat \<Rightarrow> registry" where
  "set_user_gauges reg uuid nicIndex userStat =
     (let userID = Sprintf_d (int (UserId userStat));
          r1 = WithLabelValues_Set reg perUserRxPackets [uuid, nicIndex, userID] (user_RxPackets userStat);
          r2 = WithLabelValues_Set r1 perUserRxBytes [uuid, nicIndex, userID] (user_RxBytes userStat);
          r3 = WithLabelValues_Set r2 perUserTxPackets [uuid, nicIndex, userID] (user_TxPackets userStat);
          r4 = WithLabelValues_Set r3 perUserTxBytes [uuid, nicIndex, userID] (user_TxBytes userStat);
          r5 = WithLabelValues_Set r4 perUserDropPackets [uuid, nicIndex, userID] (DroppedPackets userStat)
      in WithLabelValues_Set r5 perUserDropBytes [uuid, nicIndex, userID] (DroppedBytes userStat))"

definition set_unknown_gauges :: "registry \<Rightarrow> string \<Rightarrow> string \<Rightarrow> PerUserStat \<Rightarrow> registry" where
  "set_unknown_gauges reg uuid nicIndex unknownStat =
     (let r1 = WithLabelValues_Set reg unknownUserRxPackets [uuid, nicIndex] (user_RxPackets unknownStat);
          r2 = WithLabelValues_Set r1 unknownUserRxBytes [uuid, nicIndex] (user_RxBytes unknownStat);
          r3 = WithLabelValues_Set r2 unknownUserTxPackets [uuid, nicIndex] (user_TxPackets unknownStat);
          r4 = WithLabelValues_Set r3 unknownUserTxBytes [uuid, nicIndex] (user_TxBytes unknownStat);
          r5 = WithLabelValues_Set r4 unknownUserDropPackets [uuid, nicIndex] (DroppedPackets unknownStat)
      in WithLabelValues_Set r5 unknownUserDropBytes [uuid, nicIndex] (DroppedBytes unknownStat))"

definition set_nic_gauges :: "registry \<Rightarrow> string \<Rightarrow> string \<Rightarrow> NicStat \<Rightarrow> registry" where
  "set_nic_gauges reg uuid nicIndex stat =
     (let r1 = WithLabelValues_Set reg rxPackets [uuid, nicIndex] (RxPackets stat);
          r2 = WithLabelValues_Set r1 txPackets [uuid, nicIndex] (TxPackets stat);
          r3 = WithLabelValues_Set r2 rxBytes [uuid, nicIndex] (RxBytes stat);
          r4 = WithLabelValues_Set r3 txBytes [uuid, nicIndex] (TxBytes stat);
          r5 = WithLabelValues_Set r4 rxErrors [uuid, nicIndex] (RxErrors stat);
          r6 = WithLabelValues_Set r5 txErrors [uuid, nicIndex] (TxErrors stat)
      in WithLabelValues_Set r6 rxDropped [uuid, nicIndex] (RxDropped stat))"

text \<open>
  The inner loop, \<open>for i := 0; i < len(stat.PerUserStats)-1; i++\<close>, from \<open>i\<close> on. The
  registry is returned with the error: the gauges set before a panic stay set.
\<close>

function per_user_loop ::
  "registry \<Rightarrow> string \<Rightarrow> string \<Rightarrow> PerUserStat list \<Rightarrow> int \<Rightarrow> error option \<times> registry" where
  "per_user_loop reg uuid nicIndex stats i =
     (if i < int (length stats) - 1
      then (case index stats i of
              Inl e \<Rightarrow> (Some e, reg)
            | Inr userStat \<Rightarrow>
                per_user_loop (set_user_gauges reg uuid nicIndex userStat) uuid nicIndex stats (i + 1))
      else (None, reg))"
  by pat_completeness auto
termination
  by (relation "measure (\<lambda>(reg, uuid, nicIndex, stats, i). nat (int (length stats) - 1 - i))") auto

declare per_user_loop.simps [simp del]

text \<open>The body of the outer loop, for the NIC stat at index \<open>i\<close>.\<close>

definition nic_step :: "registry \<Rightarrow> string \<Rightarrow> nat \<Rightarrow> NicStat \<Rightarrow> error option \<times> registry" where
  "nic_step reg uuid i stat =
     (let nicIndex = Sprintf_d (int i);
          r1 = set_nic_gauges reg uuid nicIndex stat
      in (case per_user_loop r1 uuid nicIndex (PerUserStats stat) 0 of
            (Some e, r2) \<Rightarrow> (Some e, r2)
          | (None, r2) \<Rightarrow>
              (case index (PerUserStats stat) (int (length (PerUserStats stat)) - 1) of
                 Inl e \<Rightarrow> (Some e, r2)
               | Inr unknownStat \<Rightarrow> (None, set_unknown_gauges r2 uuid nicIndex unknownStat))))"

text \<open>The outer loop, \<open>for i, stat := range sysInfo.Stats\<close>, from index \<open>i\<close> on.\<close>

fun nic_loop :: "registry \<Rightarrow> string \<Rightarrow> nat \<Rightarrow> NicStat list \<Rightarrow> error option \<times> registry" where
  "nic_loop reg uuid i [] = (None, reg)"
| "nic_loop reg uuid i (stat # rest) =
     (case nic_step reg uuid i stat of
        (Some e, r) \<Rightarrow> (Some e, r)
      | (None, r) \<Rightarrow> nic_loop r uuid (i + 1) rest)"

text \<open>
  \<open>getNicCounter\<close>, given what \<open>GetFastrgSystemInfo\<close> returned: the error of the call, or
  \<open>sysInfo.Stats\<close>. The result is the error returned or the panic raised, if any, and
  the registry.
\<close>

definition getNicCounter ::
  "registry \<Rightarrow> NodeMonitor \<Rightarrow> error + NicStat list \<Rightarrow> error option \<times> registry" where
  "getNicCounter reg nm sysInfo =
     (case sysInfo of
        Inl err \<Rightarrow> (Some err, reg)
      | Inr Stats \<Rightarrow> nic_loop reg (nodeUUID nm) 0 Stats)"

section \<open>Unregistering a node\<close>

text \<open>
  The gRPC server owns the monitor manager; the REST server has the store and the JWT
  secret only. Both talk to the same store.
\<close>

record GrpcServer =
  etcd :: EtcdClient
  nodeMonitorMgr :: NodeMonitorManager

definition GrpcServer_UnregisterNode :: "GrpcServer \<Rightarrow> string \<Rightarrow> string option \<times> GrpcServer" where
  "GrpcServer_UnregisterNode s NodeUuid =
     (if NodeUuid = [] then (Some ''node_uuid is required'', s)
      else (let etcdKey = ''nodes/'' @ NodeUuid
      in (case etcd_Get (etcd s) etcdKey of
        (Inl err, st1) \<Rightarrow> (Some ''failed to check node registration'', s\<lparr>etcd := st1\<rparr>)
      | (Inr Kvs, st1) \<Rightarrow>
      if length Kvs = 0 then (Some ''node not registered'', s\<lparr>etcd := st1\<rparr>)
      else (let mgr = StopMonitoring (nodeMonitorMgr s) NodeUuid
      in (case etcd_Delete st1 etcdKey of
        (Inl err, st2) \<Rightarrow> (Some ''failed to unregister node'', s\<lparr>etcd := st2, nodeMonitorMgr := mgr\<rparr>)
      | (Inr u, st2) \<Rightarrow> (None, s\<lparr>etcd := st2, nodeMonitorMgr := mgr\<rparr>))))))"

definition RestServer_UnregisterNode :: "EtcdClient \<Rightarrow> request \<Rightarrow> response \<times> EtcdClient" where
  "RestServer_UnregisterNode st c =
     (let nodeUuid = param_uuid c
      in if nodeUuid = [] then ((400, H_error ''Node UUID is required''), st)
      else (let etcdKey = ''nodes/'' @ nodeUuid
      in (case etcd_Get st etcdKey of
        (Inl err, st1) \<Rightarrow> ((500, H_error ''Failed to check node existence''), st1)
      | (Inr Kvs, st1) \<Rightarrow>
      if length Kvs = 0 then ((404, H_error ''Node not found''), st1)
      else (case etcd_Delete st1 etcdKey of
        (Inl err, st2) \<Rightarrow> ((500, H_error ''Failed to unregister node''), st2)
      | (Inr u, st2) \<Rightarrow> ((200, H_message ''Node unregistered successfully''), st2)))))"

section \<open>Example data\<close>

text \<open>
  The text \<open>json.Marshal\<close> writes for an HSI record whose strings need no escaping.
\<close>

definition json_HSIConfigWithMetadata :: "HSIConfigWithMetadata \<Rightarrow> string" where
  \<open>json_HSIConfigWithMetadata r =
     ''{"config":{"user_id":"'' @ UserID (Config r) @
     ''","vlan_id":"'' @ VlanID (Config r) @
     ''","account_name":"'' @ AccountName (Config r) @
     ''","password":"'' @ Password (Config r) @
     ''","dhcp_addr_pool":"'' @ DHCPAddrPool (Config r) @
     ''","dhcp_subnet":"'' @ DHCPSubnet (Config r) @
     ''","dhcp_gateway":"'' @ DHCPGateway (Config r) @
     ''"},"metadata":{"node":"'' @ Node (Metadata r) @
     ''","resourceVersion":"'' @ ResourceVersion (Metadata r) @
     ''","updatedBy":"'' @ UpdatedBy (Metadata r) @
     ''","updatedAt":"'' @ UpdatedAt (Metadata r) @
     ''","enableStatus":"'' @ EnableStatus (Metadata r) @ ''"}}''\<close>

definition ex_config :: "string \<Rightarrow> string \<Rightarrow> HSIConfig" where
  "ex_config userId vlanId =
     \<lparr>UserID = userId, VlanID = vlanId, AccountName = ''a'', Password = ''p'',
      DHCPAddrPool = ''192.168.3.100-192.168.3.200'', DHCPSubnet = ''255.255.255.0'',
      DHCPGateway = ''192.168.3.1''\<rparr>"

text \<open>A stored record of user 1 on VLAN 100, at version 41 and enabled.\<close>

definition ex_record :: HSIConfigWithMetadata where
  "ex_record =
     \<lparr>Config = ex_config ''1'' ''100'',
      Metadata = \<lparr>Node = ''n1'', ResourceVersion = ''41'', UpdatedBy = ''admin'',
                  UpdatedAt = ''2024-01-01T00:00:00Z'', EnableStatus = ''enabled''\<rparr>\<rparr>"

definition ex_count_5 :: string where
  \<open>ex_count_5 = ''{"subscriber_count":"5"}''\<close>

definition ex_count_minus_5 :: string where
  \<open>ex_count_minus_5 = ''{"subscriber_count":"-5"}''\<close>

definition ex_event_dial :: string where
  \<open>ex_event_dial = ''{"event_type":"pppoe_dial","node_id":"n1"}''\<close>

definition ex_event_hangup :: string where
  \<open>ex_event_hangup = ''{"event_type":"pppoe_hangup","node_id":"n1"}''\<close>

definition ex_event_untyped :: string where
  \<open>ex_event_untyped = ''{"node_id":"n1"}''\<close>

text \<open>The maps these three documents decode to.\<close>

definition ex_dial :: event where
  "ex_dial = [''event_type'' \<mapsto> JString ''pppoe_dial'', ''node_id'' \<mapsto> JString ''n1'']"

definition ex_hangup :: event where
  "ex_hangup = [''event_type'' \<mapsto> JString ''pppoe_hangup'', ''node_id'' \<mapsto> JString ''n1'']"

definition ex_untyped :: event where
  "ex_untyped = [''node_id'' \<mapsto> JString ''n1'']"

text \<open>
  An environment that agrees with the libraries on the documents above: one valid token,
  of user \<open>admin\<close>, and the decoders on the example documents (any other text is taken
  as not decodable).
\<close>

definition ex_env :: env where
  "ex_env =
     \<lparr>validateToken = (\<lambda>t. if t = ''token-of-admin''
                             then Inr \<lparr>Valid = True, claim_username = Some ''admin''\<rparr>
                             else Inl InvalidToken),
      Unmarshal_HSIConfigWithMetadata =
        (\<lambda>s. if s = json_HSIConfigWithMetadata ex_record then Some ex_record else None),
      Marshal_HSIConfigWithMetadata = json_HSIConfigWithMetadata,
      Unmarshal_SubscriberCountData =
        (\<lambda>s. if s = ex_count_5 then Some \<lparr>SubscriberCount = ''5''\<rparr>
              else if s = ex_count_minus_5 then Some \<lparr>SubscriberCount = ''-5''\<rparr>
              else None),
      Unmarshal_map =
        (\<lambda>s. if s = ex_event_dial then Some ex_dial
              else if s = ex_event_hangup then Some ex_hangup
              else if s = ex_event_untyped then Some ex_untyped
              else None),
      now_RFC3339 = ''2024-06-01T12:00:00Z''\<rparr>"

definition ex_request :: request where
  "ex_request =
     \<lparr>param_uuid = ''n1'', param_nodeId = ''n1'', param_userId = ''1'',
      header_Authorization = ''token-of-admin'', query_event_type = [],
      body_HSIConfig = None\<rparr>"

text \<open>
  A store that holds the example record of user 1, an update of it that moves the user
  to VLAN 200, and the store after that update.
\<close>

definition ex_store :: EtcdClient where
  "ex_store = \<lparr>kvs = [(''configs/n1/hsi/1'', json_HSIConfigWithMetadata ex_record)], faults = []\<rparr>"

definition ex_update_request :: request where
  "ex_update_request = ex_request\<lparr>body_HSIConfig := Some (ex_config ''1'' ''200'')\<rparr>"

definition ex_store_updated :: EtcdClient where
  "ex_store_updated =
     \<lparr>kvs = [(''configs/n1/hsi/1'',
          json_HSIConfigWithMetadata
            \<lparr>Config = ex_config ''1'' ''200'',
             Metadata = \<lparr>Node = ''n1'', ResourceVersion = ''42'', UpdatedBy = ''admin'',
                         UpdatedAt = ''2024-06-01T12:00:00Z'', EnableStatus = ''enabled''\<rparr>\<rparr>)],
        faults = []\<rparr>"

text \<open>A request that creates the record of a user on a VLAN.\<close>

definition ex_create_request :: "string \<Rightarrow> string \<Rightarrow> request" where
  "ex_create_request userId vlanId = ex_request\<lparr>body_HSIConfig := Some (ex_config userId vlanId)\<rparr>"

text \<open>
  A store with a subscriber count document for node \<open>n1\<close> and three HSI keys, and a
  store with three entries of failed-event history.
\<close>

definition ex_store_counted :: "string \<Rightarrow> EtcdClient" where
  "ex_store_counted count =
     \<lparr>kvs = [(''user_counts/n1/'', count), (''configs/n1/hsi/7'', ''{}''),
             (''configs/n1/hsi/abc'', ''{}''), (''configs/n1/hsi/3'', ''{}'')],
      faults = []\<rparr>"

definition ex_history :: EtcdClient where
  "ex_history =
     \<lparr>kvs = [(''failed_events_history/n1/1700000001'', ex_event_dial),
             (''failed_events_history/n1/1700000003'', ex_event_hangup),
             (''failed_events_history/n1/1700000002'', ex_event_untyped)],
      faults = []\<rparr>"

text \<open>
  A registered and monitored node \<open>n1\<close>, what a scrape of it returns for one NIC with
  the given per-user slots, and the registry and the manager after a first round of
  scrapes.
\<close>

definition ex_monitor :: NodeMonitor where
  "ex_monitor = \<lparr>nodeUUID = ''n1'', nodeIP = ''10.0.0.5''\<rparr>"

definition ex_node :: string where
  \<open>ex_node = ''{"ip":"10.0.0.5","last_seen_time":1700000000,"node_uuid":"n1","registered_at":1700000000,"status":"active","version":"1.0"}''\<close>

definition ex_grpc :: GrpcServer where
  "ex_grpc =
     \<lparr>etcd = \<lparr>kvs = [(''nodes/n1'', ex_node)], faults = []\<rparr>,
      nodeMonitorMgr = \<lparr>monitors = [''n1'' \<mapsto> ex_monitor], metrics = Map.empty, stopped = []\<rparr>\<rparr>"

definition ex_user_stat :: "nat \<Rightarrow> nat \<Rightarrow> PerUserStat" where
  "ex_user_stat uid n =
     \<lparr>UserId = uid, user_RxPackets = n, user_RxBytes = n, user_TxPackets = n, user_TxBytes = n,
      DroppedPackets = 0, DroppedBytes = 0\<rparr>"

definition ex_nic :: "PerUserStat list \<Rightarrow> NicStat" where
  "ex_nic users =
     \<lparr>RxPackets = 10, TxPackets = 10, RxBytes = 10, TxBytes = 10, RxErrors = 0, TxErrors = 0,
      RxDropped = 0, PerUserStats = users\<rparr>"

definition ex_scraped :: registry where
  "ex_scraped =
     WithLabelValues_Set
       (WithLabelValues_Set
          (snd (getNicCounter Map.empty ex_monitor (Inr [ex_nic [ex_user_stat 1 7, ex_user_stat 0 3]])))
          perPPPoESessionRxPackets [''n1'', ''1''] 5)
       perUserDhcpCurLeaseCount [''n1'', ''1''] 2"

definition ex_manager :: NodeMonitorManager where
  "ex_manager = \<lparr>monitors = [''n1'' \<mapsto> ex_monitor], metrics = ex_scraped, stopped = []\<rparr>"

text \<open>
  A stored record of user 1 whose resource version is the given text, an environment
  whose decoder reads that record (and nothing else), the store that holds it, and the
  store after \<open>ex_update_request\<close> has been written over it with the given version.
\<close>

definition ex_record_at :: "string \<Rightarrow> HSIConfigWithMetadata" where
  "ex_record_at version =
     \<lparr>Config = ex_config ''1'' ''100'',
      Metadata = \<lparr>Node = ''n1'', ResourceVersion = version, UpdatedBy = ''admin'',
                  UpdatedAt = ''2024-01-01T00:00:00Z'', EnableStatus = ''enabled''\<rparr>\<rparr>"

definition ex_env_at :: "string \<Rightarrow> env" where
  "ex_env_at version =
     ex_env\<lparr>Unmarshal_HSIConfigWithMetadata :=
       (\<lambda>s. if s = json_HSIConfigWithMetadata (ex_record_at version)
             then Some (ex_record_at version) else None)\<rparr>"

definition ex_store_at :: "string \<Rightarrow> EtcdClient" where
  "ex_store_at version =
     \<lparr>kvs = [(''configs/n1/hsi/1'', json_HSIConfigWithMetadata (ex_record_at version))], faults = []\<rparr>"

definition ex_store_after :: "string \<Rightarrow> EtcdClient" where
  "ex_store_after version =
     \<lparr>kvs = [(''configs/n1/hsi/1'',
          json_HSIConfigWithMetadata
            \<lparr>Config = ex_config ''1'' ''200'',
             Metadata = \<lparr>Node = ''n1'', ResourceVersion = version, UpdatedBy = ''admin'',
                         UpdatedAt = ''2024-06-01T12:00:00Z'', EnableStatus = ''enabled''\<rparr>\<rparr>)],
        faults = []\<rparr>"

text \<open>
  Space runes of the scanner of package \<open>fmt\<close> that JSON text holds unescaped, in
  UTF-8: U+0085, U+00A0, U+1680, U+2000, U+200A, U+202F, U+205F, U+3000 and the space.
\<close>

definition ex_spaces :: string where
  "ex_spaces =
     [CHR 0xC2, CHR 0x85, CHR 0xC2, CHR 0xA0, CHR 0xE1, CHR 0x9A, CHR 0x80,
      CHR 0xE2, CHR 0x80, CHR 0x80, CHR 0xE2, CHR 0x80, CHR 0x8A, CHR 0xE2, CHR 0x80, CHR 0xAF,
      CHR 0xE2, CHR 0x81, CHR 0x9F, CHR 0xE3, CHR 0x80, CHR 0x80, CHR 0x20]"

text \<open>
  What a create for user 2 on VLAN 200 stores, with the given version, and a store whose
  value at the key of user 2 is not a JSON document.
\<close>

definition ex_created :: "string \<Rightarrow> string \<times> string" where
  "ex_created version =
     (''configs/n1/hsi/2'',
      json_HSIConfigWithMetadata
        \<lparr>Config = ex_config ''2'' ''200'',
         Metadata = \<lparr>Node = ''n1'', ResourceVersion = version, UpdatedBy = ''admin'',
                     UpdatedAt = ''2024-06-01T12:00:00Z'', EnableStatus = ''disabled''\<rparr>\<rparr>)"

definition ex_store_garbled :: EtcdClient where
  "ex_store_garbled = \<lparr>kvs = [(''configs/n1/hsi/2'', ''not json'')], faults = []\<rparr>"

text \<open>
  A store with a key that is the prefix of node \<open>n1\<close> itself, and the counted store
  with a schedule of faults.
\<close>

definition ex_store_bare :: EtcdClient where
  "ex_store_bare =
     \<lparr>kvs = [(''configs/n1/hsi/'', ''{}''), (''configs/n1/hsi/3'', ''{}'')], faults = []\<rparr>"

definition ex_store_faulty :: "bool list \<Rightarrow> EtcdClient" where
  "ex_store_faulty fs = (ex_store_counted ex_count_5)\<lparr>faults := fs\<rparr>"

section \<open>The store: what a call reads and leaves\<close>

lemma next_fault_kvs: "next_fault st = (f, st') \<Longrightarrow> kvs st' = kvs st"
  by (auto simp: next_fault_def split: list.splits)

lemma next_fault_no_faults: "faults st = [] \<Longrightarrow> next_fault st = (False, st)"
  by (simp add: next_fault_def)

lemma etcd_Get_kvs: "etcd_Get st k = (r, st') \<Longrightarrow> kvs st' = kvs st"
  by (auto simp: etcd_Get_def split: prod.splits bool.splits dest: next_fault_kvs)

lemma etcd_Get_Inr:
  "etcd_Get st k = (Inr Kvs, st') \<Longrightarrow>
     Kvs = (case map_of (kvs st) k of None \<Rightarrow> [] | Some v \<Rightarrow> [(k, v)]) \<and> kvs st' = kvs st"
  by (auto simp: etcd_Get_def split: prod.splits bool.splits dest: next_fault_kvs)

lemma etcd_Get_no_faults:
  "faults st = [] \<Longrightarrow>
     etcd_Get st k = (Inr (case map_of (kvs st) k of None \<Rightarrow> [] | Some v \<Rightarrow> [(k, v)]), st)"
  by (simp add: etcd_Get_def next_fault_no_faults)

section \<open>The HSI writes\<close>

lemma etcd_Get_WithPrefix_kvs: "etcd_Get_WithPrefix st k = (r, st') \<Longrightarrow> kvs st' = kvs st"
  by (auto simp: etcd_Get_WithPrefix_def split: prod.splits bool.splits dest: next_fault_kvs)

lemma etcd_Get_WithPrefix_Inr:
  "etcd_Get_WithPrefix st p = (Inr Kvs, st') \<Longrightarrow>
     Kvs = sort_key fst (filter (\<lambda>kv. HasPrefix (fst kv) p) (kvs st)) \<and> kvs st' = kvs st"
  by (auto simp: etcd_Get_WithPrefix_def split: prod.splits bool.splits dest: next_fault_kvs)

lemma etcd_Get_WithPrefix_no_faults:
  "faults st = [] \<Longrightarrow>
     etcd_Get_WithPrefix st p = (Inr (sort_key fst (filter (\<lambda>kv. HasPrefix (fst kv) p) (kvs st))), st)"
  by (simp add: etcd_Get_WithPrefix_def next_fault_no_faults)

lemma etcd_Put_Inr:
  "etcd_Put st k v = (Inr u, st') \<Longrightarrow> kvs st' = (k, v) # filter (\<lambda>kv. fst kv \<noteq> k) (kvs st)"
  by (auto simp: etcd_Put_def split: prod.splits bool.splits dest: next_fault_kvs)

lemma etcd_Put_no_faults:
  "faults st = [] \<Longrightarrow>
     etcd_Put st k v = (Inr (), st\<lparr>kvs := (k, v) # filter (\<lambda>kv. fst kv \<noteq> k) (kvs st)\<rparr>)"
  by (simp add: etcd_Put_def next_fault_no_faults)

lemma GetSubscriberCount_kvs: "GetSubscriberCount E st n = (r, st') \<Longrightarrow> kvs st' = kvs st"
  by (auto simp: GetSubscriberCount_def split: prod.splits sum.splits option.splits if_splits dest: etcd_Get_kvs)

lemma GetSubscriberCount_no_faults:
  "faults st = [] \<Longrightarrow> snd (GetSubscriberCount E st n) = st"
  by (simp add: GetSubscriberCount_def etcd_Get_no_faults split: option.splits)

lemma isVlanInUse_kvs: "isVlanInUse E st n v u = (r, st') \<Longrightarrow> kvs st' = kvs st"
  by (auto simp: isVlanInUse_def split: prod.splits sum.splits dest: etcd_Get_WithPrefix_kvs)

lemma SkipSpace_Nil: "SkipSpace [] = Some []"
  by (simp add: SkipSpace.simps)

lemma Sscanf_d_Nil: "Sscanf_d [] = None"
  by (simp add: Sscanf_d_def SkipSpace_Nil)

lemma version_after_Some:
  "Unmarshal_HSIConfigWithMetadata E v = Some r \<Longrightarrow>
     version_after E (Some v) =
       (case Sscanf_d (ResourceVersion (Metadata r)) of None \<Rightarrow> ''2'' | Some n \<Rightarrow> Sprintf_d (int_incr n))"
  by (auto simp: version_after_def Sscanf_d_Nil)

lemma getNextResourceVersion_Inr:
  "getNextResourceVersion E st k = (Inr v, st') \<Longrightarrow>
     v = version_after E (map_of (kvs st) k) \<and> kvs st' = kvs st"
  by (auto simp: getNextResourceVersion_def version_after_def Let_def
      split: prod.splits sum.splits option.splits if_splits dest!: etcd_Get_Inr)

lemma getNextResourceVersion_no_faults:
  "faults st = [] \<Longrightarrow>
     getNextResourceVersion E st k = (Inr (version_after E (map_of (kvs st) k)), st)"
  by (simp add: getNextResourceVersion_def version_after_def etcd_Get_no_faults Let_def
      split: option.splits)

lemma isHSIConfigEnabled_Inr:
  "isHSIConfigEnabled E st n u = (Inr s, st') \<Longrightarrow>
     kvs st' = kvs st \<and>
     (case map_of (kvs st) (hsi_key n u) of
        None \<Rightarrow> s = ''unknown''
      | Some v \<Rightarrow> (\<exists>r. Unmarshal_HSIConfigWithMetadata E v = Some r \<and> s = EnableStatus (Metadata r)))"
  by (auto simp: isHSIConfigEnabled_def split: prod.splits sum.splits option.splits if_splits dest!: etcd_Get_Inr)

lemma ParseInt_range: "ParseInt s = Some n \<Longrightarrow> - (2 ^ 63) \<le> n \<and> n < 2 ^ 63"
  by (auto simp: ParseInt_def Let_def split: if_splits)

lemma Sscanf_d_range: "Sscanf_d s = Some n \<Longrightarrow> - (2 ^ 63) \<le> n \<and> n < 2 ^ 63"
  by (auto simp: Sscanf_d_def Let_def split: option.splits if_splits dest: ParseInt_range)

lemma digit_or_sign_cases:
  "is_digit c \<or> c = CHR ''+'' \<or> c = CHR ''-'' \<Longrightarrow> of_char c \<in> {43 :: nat, 45} \<union> {48 .. 57}"
  by (auto simp: is_digit_def less_eq_char_def)

lemma space_len_digit_or_sign:
  assumes "is_digit c \<or> c = CHR ''+'' \<or> c = CHR ''-''"
  shows "space_len (c # r) = 0"
proof -
  from digit_or_sign_cases [OF assms] have n: "(of_char c :: nat) \<in> {43, 45} \<union> {48 .. 57}" .
  have ne: "c \<noteq> d" if "(of_char d :: nat) \<notin> {43, 45} \<union> {48 .. 57}" for d
    using n that by auto
  have "c \<noteq> CHR 0x09" "c \<noteq> CHR 0x0B" "c \<noteq> CHR 0x0C" "c \<noteq> CHR 0x0D" "c \<noteq> CHR 0x20"
    "c \<noteq> CHR 0xC2" "c \<noteq> CHR 0xE1" "c \<noteq> CHR 0xE2" "c \<noteq> CHR 0xE3"
    by (rule ne, simp)+
  then show ?thesis
    by (simp add: space_len_def)
qed

lemma SkipSpace_digit_or_sign:
  assumes "is_digit c \<or> c = CHR ''+'' \<or> c = CHR ''-''"
  shows "SkipSpace (c # r) = Some (c # r)"
proof -
  from digit_or_sign_cases [OF assms] have "c \<noteq> CHR 0x0A" by auto
  with space_len_digit_or_sign [OF assms, of r] show ?thesis
    by (subst SkipSpace.simps) simp
qed

lemma takeWhile_run:
  "list_all P xs \<Longrightarrow> rest = [] \<or> \<not> P (hd rest) \<Longrightarrow> takeWhile P (xs @ rest) = xs"
  by (induction xs) (auto simp: takeWhile_eq_Nil_iff neq_Nil_conv)

lemma Sscanf_d_prefix:
  assumes p: "ParseInt s = Some n" and r: "rest = [] \<or> \<not> is_digit (hd rest)"
  shows "Sscanf_d (s @ rest) = Some n"
proof -
  from p obtain c t where s: "s = c # t"
    by (cases s) (auto simp: ParseInt_def)
  show ?thesis
  proof (cases "c = CHR ''+'' \<or> c = CHR ''-''")
    case True
    with p s have d: "t \<noteq> []" "list_all is_digit t"
      by (auto simp: ParseInt_def Let_def split: if_splits)
    from True have k: "SkipSpace (c # t @ rest) = Some (c # t @ rest)"
      by (simp add: SkipSpace_digit_or_sign)
    from takeWhile_run [OF d(2) r] have w: "takeWhile is_digit (t @ rest) = t" .
    from True d(1) p show ?thesis
      unfolding s Sscanf_d_def append_Cons k by (simp add: w)
  next
    case False
    with p s have d: "list_all is_digit (c # t)"
      by (auto simp: ParseInt_def Let_def split: if_splits)
    then have k: "SkipSpace (c # t @ rest) = Some (c # t @ rest)"
      by (simp add: SkipSpace_digit_or_sign)
    from takeWhile_run [OF d r] have w: "takeWhile is_digit (c # t @ rest) = c # t" by simp
    from False p show ?thesis
      unfolding s Sscanf_d_def append_Cons k by (simp add: w del: takeWhile.simps)
  qed
qed

lemma Sscanf_d_space:
  assumes "0 < space_len s"
  shows "Sscanf_d s = Sscanf_d (drop (space_len s) s)"
proof -
  from assms have "s \<noteq> []" "hd s \<noteq> CHR 0x0A"
    by (auto simp: space_len_def split: list.splits if_splits)
  with assms have "SkipSpace s = SkipSpace (drop (space_len s) s)"
    by (subst SkipSpace.simps) simp
  then show ?thesis by (simp add: Sscanf_d_def)
qed

lemma int_incr_wrap: "- (2 ^ 63) \<le> n \<Longrightarrow> n < 2 ^ 63 \<Longrightarrow>
   int_incr n = (if n = 2 ^ 63 - 1 then - (2 ^ 63) else n + 1)"
  by (simp add: int_incr_def)

lemma CreateHSIConfig_200:
  assumes "CreateHSIConfig E st c = ((200, b), st')"
  shows "\<exists>config username. body_HSIConfig c = Some config \<and>
     kvs st' =
       (hsi_key (param_nodeId c) (UserID config),
        Marshal_HSIConfigWithMetadata E
          \<lparr>Config = config,
           Metadata = \<lparr>Node = param_nodeId c,
                       ResourceVersion = version_after E (map_of (kvs st) (hsi_key (param_nodeId c) (UserID config))),
                       UpdatedBy = username, UpdatedAt = now_RFC3339 E,
                       EnableStatus = ''disabled''\<rparr>\<rparr>)
       # filter (\<lambda>kv. fst kv \<noteq> hsi_key (param_nodeId c) (UserID config)) (kvs st)"
  using assms
  apply (simp add: CreateHSIConfig_def Let_def split: if_splits option.splits prod.splits sum.splits)
  apply (auto dest!: GetSubscriberCount_kvs isVlanInUse_kvs getNextResourceVersion_Inr etcd_Put_Inr)
  done

lemma UpdateHSIConfig_200_steps:
  assumes "UpdateHSIConfig E st c = ((200, b), st')"
  obtains config username rv status n x st1 st2 st3 st4 where
    "body_HSIConfig c = Some config" "UserID config = param_userId c"
    "GetSubscriberCount E st (param_nodeId c) = (n, st1)"
    "isVlanInUse E st1 (param_nodeId c) (VlanID config) (param_userId c) = (Inr (False, x), st2)"
    "getNextResourceVersion E st2 (hsi_key (param_nodeId c) (param_userId c)) = (Inr rv, st3)"
    "isHSIConfigEnabled E st3 (param_nodeId c) (param_userId c) = (Inr status, st4)"
    "etcd_Put st4 (hsi_key (param_nodeId c) (param_userId c))
       (Marshal_HSIConfigWithMetadata E
          \<lparr>Config = config,
           Metadata = \<lparr>Node = param_nodeId c, ResourceVersion = rv,
                       UpdatedBy = username, UpdatedAt = now_RFC3339 E,
                       EnableStatus = status\<rparr>\<rparr>) = (Inr (), st')"
  using assms
  by (auto simp: UpdateHSIConfig_def Let_def
      split: if_splits option.splits prod.splits sum.splits)

lemma UpdateHSIConfig_200:
  assumes "UpdateHSIConfig E st c = ((200, b), st')"
  shows "\<exists>config username status. body_HSIConfig c = Some config \<and> UserID config = param_userId c \<and>
     kvs st' =
       (hsi_key (param_nodeId c) (UserID config),
        Marshal_HSIConfigWithMetadata E
          \<lparr>Config = config,
           Metadata = \<lparr>Node = param_nodeId c,
                       ResourceVersion = version_after E (map_of (kvs st) (hsi_key (param_nodeId c) (UserID config))),
                       UpdatedBy = username, UpdatedAt = now_RFC3339 E,
                       EnableStatus = status\<rparr>\<rparr>)
       # filter (\<lambda>kv. fst kv \<noteq> hsi_key (param_nodeId c) (UserID config)) (kvs st) \<and>
     (case map_of (kvs st) (hsi_key (param_nodeId c) (UserID config)) of
        None \<Rightarrow> status = ''unknown''
      | Some v \<Rightarrow> (\<exists>r. Unmarshal_HSIConfigWithMetadata E v = Some r \<and> status = EnableStatus (Metadata r)))"
proof -
  from assms obtain config username rv status n x st1 st2 st3 st4 where
    b: "body_HSIConfig c = Some config" and u: "UserID config = param_userId c"
    and g: "GetSubscriberCount E st (param_nodeId c) = (n, st1)"
    and i: "isVlanInUse E st1 (param_nodeId c) (VlanID config) (param_userId c) = (Inr (False, x), st2)"
    and v: "getNextResourceVersion E st2 (hsi_key (param_nodeId c) (param_userId c)) = (Inr rv, st3)"
    and e: "isHSIConfigEnabled E st3 (param_nodeId c) (param_userId c) = (Inr status, st4)"
    and p: "etcd_Put st4 (hsi_key (param_nodeId c) (param_userId c))
       (Marshal_HSIConfigWithMetadata E
          \<lparr>Config = config,
           Metadata = \<lparr>Node = param_nodeId c, ResourceVersion = rv,
                       UpdatedBy = username, UpdatedAt = now_RFC3339 E,
                       EnableStatus = status\<rparr>\<rparr>) = (Inr (), st')"
    by (rule UpdateHSIConfig_200_steps)
  from GetSubscriberCount_kvs [OF g] isVlanInUse_kvs [OF i] have k2: "kvs st2 = kvs st"
    by simp
  from getNextResourceVersion_Inr [OF v] k2
  have rv: "rv = version_after E (map_of (kvs st) (hsi_key (param_nodeId c) (param_userId c)))"
    and k3: "kvs st3 = kvs st" by simp_all
  from isHSIConfigEnabled_Inr [OF e] k3
  have k4: "kvs st4 = kvs st"
    and s: "case map_of (kvs st) (hsi_key (param_nodeId c) (param_userId c)) of
        None \<Rightarrow> status = ''unknown''
      | Some v \<Rightarrow> (\<exists>r. Unmarshal_HSIConfigWithMetadata E v = Some r \<and> status = EnableStatus (Metadata r))"
    by simp_all
  from etcd_Put_Inr [OF p] k4 rv b u s show ?thesis
    by (intro exI [of _ config] exI [of _ username] exI [of _ status]) simp
qed

lemma HSI_write_stored:
  assumes "handler = CreateHSIConfig \<or> handler = UpdateHSIConfig"
    and "handler E st c = ((200, b), st')"
  shows "\<exists>config username status. body_HSIConfig c = Some config \<and>
     kvs st' =
       (hsi_key (param_nodeId c) (UserID config),
        Marshal_HSIConfigWithMetadata E
          \<lparr>Config = config,
           Metadata = \<lparr>Node = param_nodeId c,
                       ResourceVersion = version_after E (map_of (kvs st) (hsi_key (param_nodeId c) (UserID config))),
                       UpdatedBy = username, UpdatedAt = now_RFC3339 E,
                       EnableStatus = status\<rparr>\<rparr>)
       # filter (\<lambda>kv. fst kv \<noteq> hsi_key (param_nodeId c) (UserID config)) (kvs st)"
  using assms CreateHSIConfig_200 [of E st c b st'] UpdateHSIConfig_200 [of E st c b st']
  by blast

lemma version_after_eq:
  "version_after E found =
     (case found of
        None \<Rightarrow> ''1''
      | Some old \<Rightarrow>
          (case Unmarshal_HSIConfigWithMetadata E old of
             None \<Rightarrow> ''2''
           | Some prior \<Rightarrow>
               (case Sscanf_d (ResourceVersion (Metadata prior)) of
                  None \<Rightarrow> ''2''
                | Some parsed \<Rightarrow>
                    Sprintf_d (if parsed = 2 ^ 63 - 1 then - (2 ^ 63) else parsed + 1))))"
  by (auto simp: version_after_def Sscanf_d_Nil int_incr_wrap split: option.splits dest: Sscanf_d_range)

lemma GetSubscriberCount_no_faults_eq:
  "faults st = [] \<Longrightarrow> GetSubscriberCount E st n = (fst (GetSubscriberCount E st n), st)"
  by (simp add: GetSubscriberCount_def etcd_Get_no_faults split: option.splits)

lemma isVlanInUse_no_faults:
  "faults st = [] \<Longrightarrow>
     isVlanInUse E st n vlan cur =
       (Inr (isVlanInUse_scan E (sort_key fst (filter (\<lambda>kv. HasPrefix (fst kv) (hsi_prefix n)) (kvs st))) vlan cur), st)"
  by (simp add: isVlanInUse_def etcd_Get_WithPrefix_no_faults)

lemma isHSIConfigEnabled_no_faults:
  "faults st = [] \<Longrightarrow>
     isHSIConfigEnabled E st n u =
       ((case map_of (kvs st) (hsi_key n u) of
           None \<Rightarrow> Inr ''unknown''
         | Some v \<Rightarrow> (case Unmarshal_HSIConfigWithMetadata E v of
                        None \<Rightarrow> Inl JSONError
                      | Some r \<Rightarrow> Inr (EnableStatus (Metadata r)))), st)"
  by (simp add: isHSIConfigEnabled_def etcd_Get_no_faults split: option.splits)

lemma isVlanInUse_scan_True:
  "isVlanInUse_scan E Kvs vlan cur = (True, u) \<Longrightarrow>
     \<exists>kv \<in> set Kvs. \<exists>r. Unmarshal_HSIConfigWithMetadata E (snd kv) = Some r \<and>
        VlanID (Config r) = vlan \<and> UserID (Config r) \<noteq> cur \<and> u = UserID (Config r)"
  by (induction Kvs) (auto simp: Let_def split: option.splits if_splits)

lemma isVlanInUse_scan_conflict:
  "kv \<in> set Kvs \<Longrightarrow> Unmarshal_HSIConfigWithMetadata E (snd kv) = Some r \<Longrightarrow>
     VlanID (Config r) = vlan \<Longrightarrow> UserID (Config r) \<noteq> cur \<Longrightarrow>
     fst (isVlanInUse_scan E Kvs vlan cur)"
  by (induction Kvs) (auto simp: Let_def split: option.splits)

lemma isVlanInUse_scan_False:
  "\<not> fst (isVlanInUse_scan E Kvs vlan cur) \<Longrightarrow> isVlanInUse_scan E Kvs vlan cur = (False, [])"
  by (induction Kvs) (auto simp: Let_def split: option.splits if_splits)

lemma CreateHSIConfig_conflict:
  assumes "param_nodeId c \<noteq> []" "body_HSIConfig c = Some config"
    "required_field_missing config = None" "faults st = []"
    "\<not> exceeds_count (fst (GetSubscriberCount E st (param_nodeId c))) (UserID config)"
    "isVlanInUse_scan E (sort_key fst (filter (\<lambda>kv. HasPrefix (fst kv) (hsi_prefix (param_nodeId c))) (kvs st)))
       (VlanID config) (UserID config) = (True, u)"
  shows "CreateHSIConfig E st c =
     ((409, H_error (''Input VLAN has been already used by other user: '' @ u)), st)"
proof -
  obtain n where g: "GetSubscriberCount E st (param_nodeId c) = (n, st)"
    using GetSubscriberCount_no_faults_eq [OF assms(4)] by blast
  with assms(5) have n: "\<not> exceeds_count n (UserID config)" by simp
  show ?thesis
    unfolding CreateHSIConfig_def Let_def
    by (simp add: assms(1-3) g n isVlanInUse_no_faults [OF assms(4)] assms(6))
qed

lemma CreateHSIConfig_no_conflict:
  assumes "param_nodeId c \<noteq> []" "body_HSIConfig c = Some config"
    "required_field_missing config = None" "faults st = []"
    "\<not> exceeds_count (fst (GetSubscriberCount E st (param_nodeId c))) (UserID config)"
    "\<not> fst (isVlanInUse_scan E (sort_key fst (filter (\<lambda>kv. HasPrefix (fst kv) (hsi_prefix (param_nodeId c))) (kvs st)))
       (VlanID config) (UserID config))"
  shows "CreateHSIConfig E st c =
     (case getUserFromToken E (header_Authorization c) of
        Inl err \<Rightarrow> ((401, H_error ''Failed to get user from token''), st)
      | Inr username \<Rightarrow>
          ((200, H_message ''HSI config created successfully''),
           st\<lparr>kvs := (hsi_key (param_nodeId c) (UserID config),
               Marshal_HSIConfigWithMetadata E
                 \<lparr>Config = config,
                  Metadata = \<lparr>Node = param_nodeId c,
                    ResourceVersion = version_after E (map_of (kvs st) (hsi_key (param_nodeId c) (UserID config))),
                    UpdatedBy = username, UpdatedAt = now_RFC3339 E,
                    EnableStatus = ''disabled''\<rparr>\<rparr>)
             # filter (\<lambda>kv. fst kv \<noteq> hsi_key (param_nodeId c) (UserID config)) (kvs st)\<rparr>))"
proof -
  obtain n where g: "GetSubscriberCount E st (param_nodeId c) = (n, st)"
    using GetSubscriberCount_no_faults_eq [OF assms(4)] by blast
  with assms(5) have n: "\<not> exceeds_count n (UserID config)" by simp
  note s = isVlanInUse_scan_False [OF assms(6)]
  show ?thesis
  proof (cases "getUserFromToken E (header_Authorization c)")
    case (Inl err)
    then show ?thesis
      unfolding CreateHSIConfig_def Let_def
      by (simp add: assms(1-3) g n isVlanInUse_no_faults [OF assms(4)] s)
  next
    case (Inr username)
    then show ?thesis
      unfolding CreateHSIConfig_def Let_def
      by (simp add: assms(1-3) g n isVlanInUse_no_faults [OF assms(4)] s
          getNextResourceVersion_no_faults [OF assms(4)] etcd_Put_no_faults [OF assms(4)])
  qed
qed

lemma UpdateHSIConfig_conflict:
  assumes "param_nodeId c \<noteq> []" "body_HSIConfig c = Some config"
    "required_field_missing config = None" "faults st = []"
    "\<not> exceeds_count (fst (GetSubscriberCount E st (param_nodeId c))) (UserID config)"
    "isVlanInUse_scan E (sort_key fst (filter (\<lambda>kv. HasPrefix (fst kv) (hsi_prefix (param_nodeId c))) (kvs st)))
       (VlanID config) (UserID config) = (True, u)"
    "param_userId c = UserID config"
  shows "UpdateHSIConfig E st c =
     ((409, H_error (''Input VLAN has been already used by other user: '' @ u)), st)"
proof -
  obtain n where g: "GetSubscriberCount E st (param_nodeId c) = (n, st)"
    using GetSubscriberCount_no_faults_eq [OF assms(4)] by blast
  with assms(5) have n: "\<not> exceeds_count n (UserID config)" by simp
  from assms(3) have u: "UserID config \<noteq> []"
    by (auto simp: required_field_missing_def split: if_splits)
  show ?thesis
    unfolding UpdateHSIConfig_def Let_def
    by (simp add: assms(1-3) assms(7) u g n isVlanInUse_no_faults [OF assms(4)] assms(6))
qed

lemma UpdateHSIConfig_no_conflict:
  assumes "param_nodeId c \<noteq> []" "body_HSIConfig c = Some config"
    "required_field_missing config = None" "faults st = []"
    "\<not> exceeds_count (fst (GetSubscriberCount E st (param_nodeId c))) (UserID config)"
    "\<not> fst (isVlanInUse_scan E (sort_key fst (filter (\<lambda>kv. HasPrefix (fst kv) (hsi_prefix (param_nodeId c))) (kvs st)))
       (VlanID config) (UserID config))"
    "param_userId c = UserID config"
  shows "UpdateHSIConfig E st c =
     (case getUserFromToken E (header_Authorization c) of
        Inl err \<Rightarrow> ((401, H_error ''Failed to get user from token''), st)
      | Inr username \<Rightarrow>
          (case fst (isHSIConfigEnabled E st (param_nodeId c) (UserID config)) of
             Inl err \<Rightarrow> ((500, H_error ''Failed to get current config status''), st)
           | Inr enableStatus \<Rightarrow>
          ((200, H_message ''HSI config updated successfully''),
           st\<lparr>kvs := (hsi_key (param_nodeId c) (UserID config),
               Marshal_HSIConfigWithMetadata E
                 \<lparr>Config = config,
                  Metadata = \<lparr>Node = param_nodeId c,
                    ResourceVersion = version_after E (map_of (kvs st) (hsi_key (param_nodeId c) (UserID config))),
                    UpdatedBy = username, UpdatedAt = now_RFC3339 E,
                    EnableStatus = enableStatus\<rparr>\<rparr>)
             # filter (\<lambda>kv. fst kv \<noteq> hsi_key (param_nodeId c) (UserID config)) (kvs st)\<rparr>)))"
proof -
  obtain n where g: "GetSubscriberCount E st (param_nodeId c) = (n, st)"
    using GetSubscriberCount_no_faults_eq [OF assms(4)] by blast
  with assms(5) have n: "\<not> exceeds_count n (UserID config)" by simp
  from assms(3) have u: "UserID config \<noteq> []"
    by (auto simp: required_field_missing_def split: if_splits)
  note s = isVlanInUse_scan_False [OF assms(6)]
  obtain e where e: "isHSIConfigEnabled E st (param_nodeId c) (UserID config) = (e, st)"
    using isHSIConfigEnabled_no_faults [OF assms(4)] by blast
  show ?thesis
  proof (cases "getUserFromToken E (header_Authorization c)")
    case (Inl err)
    then show ?thesis
      unfolding UpdateHSIConfig_def Let_def
      by (simp add: assms(1-3) assms(7) u g n isVlanInUse_no_faults [OF assms(4)] s)
  next
    case (Inr username)
    show ?thesis
    proof (cases e)
      case (Inl err)
      with Inr e show ?thesis
        unfolding UpdateHSIConfig_def Let_def
        by (simp add: assms(1-3) assms(7) u g n isVlanInUse_no_faults [OF assms(4)] s
            getNextResourceVersion_no_faults [OF assms(4)])
    next
      case (Inr enableStatus)
      with \<open>getUserFromToken E (header_Authorization c) = Inr username\<close> e show ?thesis
        unfolding UpdateHSIConfig_def Let_def
        by (simp add: assms(1-3) assms(7) u g n isVlanInUse_no_faults [OF assms(4)] s
            getNextResourceVersion_no_faults [OF assms(4)] etcd_Put_no_faults [OF assms(4)])
    qed
  qed
qed

lemma GetSubscriberCount_value:
  "faults st = [] \<Longrightarrow>
     fst (GetSubscriberCount E st n) =
       (case map_of (kvs st) (count_key n) of
          None \<Rightarrow> - 1
        | Some v \<Rightarrow>
            (case Unmarshal_SubscriberCountData E v of
               None \<Rightarrow> - 1
             | Some d \<Rightarrow> (case Atoi (SubscriberCount d) of None \<Rightarrow> - 1 | Some k \<Rightarrow> k)))"
  by (simp add: GetSubscriberCount_def etcd_Get_no_faults split: option.splits)

lemma GetSubscriberCount_read:
  assumes "etcd_Get st (count_key nodeId) = (r, st')"
  shows "GetSubscriberCount E st nodeId =
     ((case (case r of
               Inl e \<Rightarrow> None
             | Inr x \<Rightarrow>
                 (case map_of (kvs st) (count_key nodeId) of
                    None \<Rightarrow> None
                  | Some v \<Rightarrow>
                      (case Unmarshal_SubscriberCountData E v of
                         None \<Rightarrow> None
                       | Some d \<Rightarrow> Atoi (SubscriberCount d)))) of
         None \<Rightarrow> - 1
       | Some k \<Rightarrow> k), st')"
proof (cases r)
  case (Inl e)
  with assms show ?thesis by (simp add: GetSubscriberCount_def)
next
  case (Inr x)
  with assms etcd_Get_Inr [of st "count_key nodeId" x st'] show ?thesis
    by (simp add: GetSubscriberCount_def split: option.splits)
qed

subsection \<open>The writes on example stores\<close>

lemmas hsi_eval =
  ex_update_request_def ex_store_updated_def UpdateHSIConfig_def CreateHSIConfig_def GetSubscriberCount_def isVlanInUse_def
  getNextResourceVersion_def isHSIConfigEnabled_def getUserFromToken_def
  etcd_Get_def etcd_Get_WithPrefix_def etcd_Put_def next_fault_def
  required_field_missing_def exceeds_count_def hsi_key_def hsi_prefix_def count_key_def
  HasPrefix_def ex_env_def ex_request_def ex_config_def ex_record_def ex_store_def
  Sscanf_d_def SkipSpace.simps space_len_def is_digit_def ParseInt_def digits_val_def
  digit_val_def Sprintf_d_def int_incr_def dec_digits.simps Atoi_def Let_def

lemmas ids_eval =
  GetHSIUserIds_def GetSubscriberCount_def etcd_Get_def etcd_Get_WithPrefix_def next_fault_def
  hsi_prefix_def count_key_def HasPrefix_def ex_env_def ex_request_def ex_store_counted_def
  ex_count_5_def ex_count_minus_5_def ParseInt_def is_digit_def digits_val_def digit_val_def
  Atoi_def Let_def

lemmas scan_eval = Sscanf_d_def SkipSpace.simps space_len_def is_digit_def ParseInt_def digits_val_def
  digit_val_def Let_def

lemma ex_update:
  "UpdateHSIConfig ex_env ex_store ex_update_request =
     ((200, H_message ''HSI config updated successfully''), ex_store_updated)"
  by (simp add: hsi_eval)

lemma ex_update_at:
  "UpdateHSIConfig (ex_env_at v) (ex_store_at v) ex_update_request =
     ((200, H_message ''HSI config updated successfully''),
      ex_store_after (case Sscanf_d v of None \<Rightarrow> ''2'' | Some n \<Rightarrow> Sprintf_d (int_incr n)))"
proof -
  let ?E = "ex_env_at v" and ?st = "ex_store_at v" and ?c = ex_update_request
  let ?config = "ex_config ''1'' ''200''"
  have dec: "Unmarshal_HSIConfigWithMetadata ?E (json_HSIConfigWithMetadata (ex_record_at v)) =
      Some (ex_record_at v)"
    by (simp add: ex_env_at_def)
  have req: "param_nodeId ?c = ''n1''" "param_userId ?c = ''1''" "body_HSIConfig ?c = Some ?config"
    "header_Authorization ?c = ''token-of-admin''"
    by (simp_all add: ex_update_request_def ex_request_def)
  have cfg: "UserID ?config = ''1''" "VlanID ?config = ''200''" "required_field_missing ?config = None"
    by (simp_all add: ex_config_def required_field_missing_def)
  have rec: "VlanID (Config (ex_record_at v)) = ''100''" "UserID (Config (ex_record_at v)) = ''1''"
    "ResourceVersion (Metadata (ex_record_at v)) = v" "EnableStatus (Metadata (ex_record_at v)) = ''enabled''"
    by (simp_all add: ex_record_at_def ex_config_def)
  have st: "kvs ?st = [(''configs/n1/hsi/1'', json_HSIConfigWithMetadata (ex_record_at v))]"
    "faults ?st = []"
    by (simp_all add: ex_store_at_def)
  have keys: "hsi_key ''n1'' ''1'' = ''configs/n1/hsi/1''" "hsi_prefix ''n1'' = ''configs/n1/hsi/''"
    "count_key ''n1'' = ''user_counts/n1/''"
    by (simp_all add: hsi_key_def hsi_prefix_def count_key_def)
  have count: "\<not> exceeds_count (fst (GetSubscriberCount ?E ?st (param_nodeId ?c))) (UserID ?config)"
    by (simp add: GetSubscriberCount_value [OF st(2)] req keys st(1) exceeds_count_def)
  have free: "\<not> fst (isVlanInUse_scan ?E
        (sort_key fst (filter (\<lambda>kv. HasPrefix (fst kv) (hsi_prefix (param_nodeId ?c))) (kvs ?st)))
        (VlanID ?config) (UserID ?config))"
    by (simp add: req keys st(1) HasPrefix_def dec rec cfg)
  have tok: "getUserFromToken ?E (header_Authorization ?c) = Inr ''admin''"
    by (simp add: getUserFromToken_def ex_env_at_def ex_env_def req)
  have en: "fst (isHSIConfigEnabled ?E ?st (param_nodeId ?c) (UserID ?config)) = Inr ''enabled''"
    by (simp add: isHSIConfigEnabled_no_faults [OF st(2)] req cfg keys st(1) dec rec)
  have ver: "version_after ?E (map_of (kvs ?st) (hsi_key (param_nodeId ?c) (UserID ?config))) =
      (case Sscanf_d v of None \<Rightarrow> ''2'' | Some n \<Rightarrow> Sprintf_d (int_incr n))"
    by (simp add: req cfg keys st(1) version_after_Some [OF dec] rec)
  have env: "Marshal_HSIConfigWithMetadata ?E = json_HSIConfigWithMetadata" "now_RFC3339 ?E = ''2024-06-01T12:00:00Z''"
    by (simp_all add: ex_env_at_def ex_env_def)
  have "param_nodeId ?c \<noteq> []" by (simp add: req)
  from UpdateHSIConfig_no_conflict [OF this req(3) cfg(3) st(2) count free] req cfg
  have "UpdateHSIConfig ?E ?st ?c =
     (case getUserFromToken ?E (header_Authorization ?c) of
        Inl err \<Rightarrow> ((401, H_error ''Failed to get user from token''), ?st)
      | Inr username \<Rightarrow>
          (case fst (isHSIConfigEnabled ?E ?st (param_nodeId ?c) (UserID ?config)) of
             Inl err \<Rightarrow> ((500, H_error ''Failed to get current config status''), ?st)
           | Inr enableStatus \<Rightarrow>
          ((200, H_message ''HSI config updated successfully''),
           ?st\<lparr>kvs := (hsi_key (param_nodeId ?c) (UserID ?config),
               Marshal_HSIConfigWithMetadata ?E
                 \<lparr>Config = ?config,
                  Metadata = \<lparr>Node = param_nodeId ?c,
                    ResourceVersion = version_after ?E (map_of (kvs ?st) (hsi_key (param_nodeId ?c) (UserID ?config))),
                    UpdatedBy = username, UpdatedAt = now_RFC3339 ?E,
                    EnableStatus = enableStatus\<rparr>\<rparr>)
             # filter (\<lambda>kv. fst kv \<noteq> hsi_key (param_nodeId ?c) (UserID ?config)) (kvs ?st)\<rparr>)))"
    by simp
  also have "\<dots> = ((200, H_message ''HSI config updated successfully''),
      ex_store_after (case Sscanf_d v of None \<Rightarrow> ''2'' | Some n \<Rightarrow> Sprintf_d (int_incr n)))"
    unfolding tok en ver env
    by (simp add: req cfg keys ex_store_at_def ex_store_after_def)
  finally show ?thesis .
qed

lemma ex_create_1:
  "CreateHSIConfig ex_env ex_store (ex_create_request ''2'' ''200'') =
     ((200, H_message ''HSI config created successfully''),
      \<lparr>kvs = [ex_created ''1'', (''configs/n1/hsi/1'', json_HSIConfigWithMetadata ex_record)],
        faults = []\<rparr>)"
  by (simp add: hsi_eval ex_create_request_def ex_created_def)

lemma not_json: "''not json'' \<noteq> json_HSIConfigWithMetadata r"
  by (simp add: json_HSIConfigWithMetadata_def)

lemma ex_create_garbled:
  "CreateHSIConfig ex_env ex_store_garbled (ex_create_request ''2'' ''200'') =
     ((200, H_message ''HSI config created successfully''),
      \<lparr>kvs = [ex_created ''2''], faults = []\<rparr>)"
  by (simp add: hsi_eval ex_create_request_def ex_created_def ex_store_garbled_def not_json)

lemma ex_Sprintf_wrap: "Sprintf_d (int_incr 9223372036854775807) = ''-9223372036854775808''"
  by (simp add: int_incr_def Sprintf_d_def dec_digits.simps)

subsection \<open>The resource version of a write\<close>

text \<open>
  C3, amended. Every HSI write, create or update, that answers 200 has stored at
  \<open>configs/{nodeId}/hsi/{userId}\<close> a record whose resource version is computed from
  what stood at the key before: \<open>"1"\<close> when there was no record; \<open>"2"\<close> when the
  value does not decode or \<open>fmt.Sscanf\<close> with \<open>%d\<close> reads no integer from its
  version; otherwise the decimal text of the integer read plus one, and of \<open>-2^63\<close>
  when the integer read is \<open>2^63 - 1\<close>, where Go's \<open>int\<close> wraps. \<open>Sscanf\<close> reads no
  integer from the empty string; it reads the integer \<open>n\<close> from a text that
  \<open>strconv.ParseInt\<close> reads as \<open>n\<close>, also when something that does not start with a
  digit follows that text; and it skips a space rune at the head of the text.
\<close>

theorem C3_resource_version:
  assumes "handler = CreateHSIConfig \<or> handler = UpdateHSIConfig"
    and "handler E st c = ((200, b), st')"
  shows "(\<exists>config stored.
       body_HSIConfig c = Some config \<and> Config stored = config \<and>
       map_of (kvs st') (hsi_key (param_nodeId c) (UserID config)) =
         Some (Marshal_HSIConfigWithMetadata E stored) \<and>
       ResourceVersion (Metadata stored) =
         (case map_of (kvs st) (hsi_key (param_nodeId c) (UserID config)) of
            None \<Rightarrow> ''1''
          | Some old \<Rightarrow>
              (case Unmarshal_HSIConfigWithMetadata E old of
                 None \<Rightarrow> ''2''
               | Some prior \<Rightarrow>
                   (case Sscanf_d (ResourceVersion (Metadata prior)) of
                      None \<Rightarrow> ''2''
                    | Some parsed \<Rightarrow>
                        Sprintf_d (if parsed = 2 ^ 63 - 1 then - (2 ^ 63) else parsed + 1))))) \<and>
     Sscanf_d [] = None \<and>
     (\<forall>s n rest. ParseInt s = Some n \<and> (rest = [] \<or> \<not> is_digit (hd rest)) \<longrightarrow>
        Sscanf_d (s @ rest) = Some n) \<and>
     (\<forall>s. 0 < space_len s \<longrightarrow> Sscanf_d s = Sscanf_d (drop (space_len s) s))"
proof -
  from HSI_write_stored [OF assms] obtain config username status where
    b: "body_HSIConfig c = Some config" and
    k: "kvs st' =
       (hsi_key (param_nodeId c) (UserID config),
        Marshal_HSIConfigWithMetadata E
          \<lparr>Config = config,
           Metadata = \<lparr>Node = param_nodeId c,
                       ResourceVersion = version_after E (map_of (kvs st) (hsi_key (param_nodeId c) (UserID config))),
                       UpdatedBy = username, UpdatedAt = now_RFC3339 E,
                       EnableStatus = status\<rparr>\<rparr>)
       # filter (\<lambda>kv. fst kv \<noteq> hsi_key (param_nodeId c) (UserID config)) (kvs st)"
    by blast
  let ?stored = "\<lparr>Config = config,
           Metadata = \<lparr>Node = param_nodeId c,
                       ResourceVersion = version_after E (map_of (kvs st) (hsi_key (param_nodeId c) (UserID config))),
                       UpdatedBy = username, UpdatedAt = now_RFC3339 E,
                       EnableStatus = status\<rparr>\<rparr>"
  show ?thesis
  proof (intro conjI exI [of _ config] exI [of _ ?stored] allI)
    show "body_HSIConfig c = Some config" by fact
    show "Config ?stored = config" by simp
    show "map_of (kvs st') (hsi_key (param_nodeId c) (UserID config)) =
        Some (Marshal_HSIConfigWithMetadata E ?stored)"
      using k by simp
    show "ResourceVersion (Metadata ?stored) =
       (case map_of (kvs st) (hsi_key (param_nodeId c) (UserID config)) of
          None \<Rightarrow> ''1''
        | Some old \<Rightarrow>
            (case Unmarshal_HSIConfigWithMetadata E old of
               None \<Rightarrow> ''2''
             | Some prior \<Rightarrow>
                 (case Sscanf_d (ResourceVersion (Metadata prior)) of
                    None \<Rightarrow> ''2''
                  | Some parsed \<Rightarrow>
                      Sprintf_d (if parsed = 2 ^ 63 - 1 then - (2 ^ 63) else parsed + 1))))"
      by (simp add: version_after_eq)
    show "Sscanf_d [] = None" by (rule Sscanf_d_Nil)
    show "ParseInt s = Some n \<and> (rest = [] \<or> \<not> is_digit (hd rest)) \<longrightarrow>
        Sscanf_d (s @ rest) = Some n" for s n rest
      using Sscanf_d_prefix [of s n rest] by blast
    show "0 < space_len s \<longrightarrow> Sscanf_d s = Sscanf_d (drop (space_len s) s)" for s
      using Sscanf_d_space [of s] by blast
  qed
qed

text \<open>
  The writes of C3 on example stores: an update over version \<open>41\<close>, a create without a
  prior record, a create over a value that does not decode, an update over a version
  with space runes before \<open>41\<close>, and an update over the empty version.
\<close>

theorem C3_resource_version_witness:
  "UpdateHSIConfig ex_env ex_store ex_update_request =
     ((200, H_message ''HSI config updated successfully''), ex_store_updated) \<and>
   (\<exists>stored. map_of (kvs ex_store_updated) ''configs/n1/hsi/1'' =
        Some (Marshal_HSIConfigWithMetadata ex_env stored) \<and>
      ResourceVersion (Metadata stored) = ''42'') \<and>
   CreateHSIConfig ex_env ex_store (ex_create_request ''2'' ''200'') =
     ((200, H_message ''HSI config created successfully''),
      \<lparr>kvs = [ex_created ''1'', (''configs/n1/hsi/1'', json_HSIConfigWithMetadata ex_record)],
        faults = []\<rparr>) \<and>
   (\<exists>stored. fst (ex_created ''1'') = ''configs/n1/hsi/2'' \<and>
      snd (ex_created ''1'') = Marshal_HSIConfigWithMetadata ex_env stored \<and>
      ResourceVersion (Metadata stored) = ''1'') \<and>
   CreateHSIConfig ex_env ex_store_garbled (ex_create_request ''2'' ''200'') =
     ((200, H_message ''HSI config created successfully''),
      \<lparr>kvs = [ex_created ''2''], faults = []\<rparr>) \<and>
   (\<exists>stored. snd (ex_created ''2'') = Marshal_HSIConfigWithMetadata ex_env stored \<and>
      ResourceVersion (Metadata stored) = ''2'') \<and>
   UpdateHSIConfig (ex_env_at (ex_spaces @ ''41'')) (ex_store_at (ex_spaces @ ''41''))
       ex_update_request =
     ((200, H_message ''HSI config updated successfully''), ex_store_after ''42'') \<and>
   (\<exists>stored. map_of (kvs (ex_store_after ''42'')) ''configs/n1/hsi/1'' =
        Some (Marshal_HSIConfigWithMetadata (ex_env_at (ex_spaces @ ''41'')) stored) \<and>
      ResourceVersion (Metadata stored) = ''42'') \<and>
   UpdateHSIConfig (ex_env_at []) (ex_store_at []) ex_update_request =
     ((200, H_message ''HSI config updated successfully''), ex_store_after ''2'') \<and>
   (\<exists>stored. map_of (kvs (ex_store_after ''2'')) ''configs/n1/hsi/1'' =
        Some (Marshal_HSIConfigWithMetadata (ex_env_at []) stored) \<and>
      ResourceVersion (Metadata stored) = ''2'') \<and>
   ParseInt ''-17'' = Some (- 17) \<and> Sscanf_d ''-17th'' = Some (- 17) \<and>
   Sscanf_d '' 5'' = Sscanf_d ''5''"
proof -
  have req: "body_HSIConfig ex_update_request = Some (ex_config ''1'' ''200'')"
    "param_nodeId ex_update_request = ''n1''" "UserID (ex_config u v) = u"
    "body_HSIConfig (ex_create_request u v) = Some (ex_config u v)"
    "param_nodeId (ex_create_request u v) = ''n1''" for u v
    by (simp_all add: ex_update_request_def ex_create_request_def ex_request_def ex_config_def)
  have key: "hsi_key ''n1'' ''1'' = ''configs/n1/hsi/1''" "hsi_key ''n1'' ''2'' = ''configs/n1/hsi/2''"
    by (simp_all add: hsi_key_def)
  have prior: "map_of (kvs ex_store) ''configs/n1/hsi/1'' = Some (json_HSIConfigWithMetadata ex_record)"
    "map_of (kvs ex_store) ''configs/n1/hsi/2'' = None"
    "map_of (kvs ex_store_garbled) ''configs/n1/hsi/2'' = Some ''not json''"
    "map_of (kvs (ex_store_at v)) ''configs/n1/hsi/1'' = Some (json_HSIConfigWithMetadata (ex_record_at v))" for v
    by (simp_all add: ex_store_def ex_store_garbled_def ex_store_at_def)
  have dec: "Unmarshal_HSIConfigWithMetadata ex_env (json_HSIConfigWithMetadata ex_record) = Some ex_record"
    "Unmarshal_HSIConfigWithMetadata ex_env ''not json'' = None"
    "Unmarshal_HSIConfigWithMetadata (ex_env_at v) (json_HSIConfigWithMetadata (ex_record_at v)) =
       Some (ex_record_at v)" for v
    by (simp_all add: ex_env_def ex_env_at_def not_json)
  have ver: "ResourceVersion (Metadata ex_record) = ''41''" "ResourceVersion (Metadata (ex_record_at v)) = v" for v
    by (simp_all add: ex_record_def ex_record_at_def)
  have scan: "Sscanf_d ''41'' = Some 41" "Sscanf_d (ex_spaces @ ''41'') = Some 41"
    by (simp_all add: scan_eval ex_spaces_def)
  have print: "Sprintf_d 42 = ''42''" "Sprintf_d (int_incr 41) = ''42''"
    by (simp_all add: Sprintf_d_def int_incr_def dec_digits.simps)
  have new: "kvs \<lparr>kvs = [ex_created w, x], faults = []\<rparr> = [ex_created w, x]"
    "kvs \<lparr>kvs = [ex_created w], faults = []\<rparr> = [ex_created w]"
    "fst (ex_created w) = ''configs/n1/hsi/2''" for w x
    by (simp_all add: ex_created_def)
  note u1 = ex_update
  from C3_resource_version [OF disjI2 [OF refl] u1]
  have w1: "\<exists>stored. map_of (kvs ex_store_updated) ''configs/n1/hsi/1'' =
        Some (Marshal_HSIConfigWithMetadata ex_env stored) \<and>
      ResourceVersion (Metadata stored) = ''42''"
    by (auto simp: req key prior dec ver scan print)
  note c1 = ex_create_1
  from C3_resource_version [OF disjI1 [OF refl] c1]
  have w2: "\<exists>stored. fst (ex_created ''1'') = ''configs/n1/hsi/2'' \<and>
      snd (ex_created ''1'') = Marshal_HSIConfigWithMetadata ex_env stored \<and>
      ResourceVersion (Metadata stored) = ''1''"
    by (auto simp: req key prior new)
  note c2 = ex_create_garbled
  from C3_resource_version [OF disjI1 [OF refl] c2]
  have w3: "\<exists>stored. snd (ex_created ''2'') = Marshal_HSIConfigWithMetadata ex_env stored \<and>
      ResourceVersion (Metadata stored) = ''2''"
    by (auto simp: req key prior dec new)
  have u2: "UpdateHSIConfig (ex_env_at (ex_spaces @ ''41'')) (ex_store_at (ex_spaces @ ''41''))
       ex_update_request =
     ((200, H_message ''HSI config updated successfully''), ex_store_after ''42'')"
    by (simp add: ex_update_at scan print)
  from C3_resource_version [OF disjI2 [OF refl] u2]
  have w4: "\<exists>stored. map_of (kvs (ex_store_after ''42'')) ''configs/n1/hsi/1'' =
        Some (Marshal_HSIConfigWithMetadata (ex_env_at (ex_spaces @ ''41'')) stored) \<and>
      ResourceVersion (Metadata stored) = ''42''"
    by (auto simp: req key prior dec ver scan print)
  have u3: "UpdateHSIConfig (ex_env_at []) (ex_store_at []) ex_update_request =
     ((200, H_message ''HSI config updated successfully''), ex_store_after ''2'')"
    by (simp add: ex_update_at Sscanf_d_Nil)
  from C3_resource_version [OF disjI2 [OF refl] u3]
  have w5: "\<exists>stored. map_of (kvs (ex_store_after ''2'')) ''configs/n1/hsi/1'' =
        Some (Marshal_HSIConfigWithMetadata (ex_env_at []) stored) \<and>
      ResourceVersion (Metadata stored) = ''2''"
    by (auto simp: req key prior dec ver Sscanf_d_Nil)
  have parse: "ParseInt ''-17'' = Some (- 17)"
    by (simp add: scan_eval)
  note scans = conjunct2 [OF conjunct2 [OF C3_resource_version [OF disjI2 [OF refl] u1]]]
  from conjunct1 [OF scans] have "ParseInt ''-17'' = Some (- 17) \<and>
      (''th'' = [] \<or> \<not> is_digit (hd ''th'')) \<longrightarrow> Sscanf_d (''-17'' @ ''th'') = Some (- 17)"
    by blast
  with parse have w6: "Sscanf_d ''-17th'' = Some (- 17)"
    by (simp add: is_digit_def)
  from conjunct2 [OF scans] have "0 < space_len '' 5'' \<longrightarrow>
      Sscanf_d '' 5'' = Sscanf_d (drop (space_len '' 5'') '' 5'')"
    by blast
  then have w7: "Sscanf_d '' 5'' = Sscanf_d ''5''"
    by (simp add: space_len_def)
  from u1 w1 c1 w2 c2 w3 u2 w4 u3 w5 parse w6 w7 show ?thesis by blast
qed

text \<open>
  The claim as stated fails on a prior version that starts with digits and is not a
  decimal integer: \<open>strconv.ParseInt\<close> rejects \<open>41abc\<close>, yet the update stores \<open>42\<close>,
  not \<open>2\<close>. It also fails on the prior version \<open>9223372036854775807\<close>, which parses:
  the update stores \<open>-9223372036854775808\<close>.
\<close>

theorem C3_counterexample:
  "map_of (kvs (ex_store_at ''41abc'')) ''configs/n1/hsi/1'' =
     Some (json_HSIConfigWithMetadata (ex_record_at ''41abc'')) \<and>
   Unmarshal_HSIConfigWithMetadata (ex_env_at ''41abc'') (json_HSIConfigWithMetadata (ex_record_at ''41abc'')) =
     Some (ex_record_at ''41abc'') \<and>
   ResourceVersion (Metadata (ex_record_at ''41abc'')) = ''41abc'' \<and>
   ParseInt ''41abc'' = None \<and>
   UpdateHSIConfig (ex_env_at ''41abc'') (ex_store_at ''41abc'') ex_update_request =
     ((200, H_message ''HSI config updated successfully''), ex_store_after ''42'') \<and>
   ParseInt ''9223372036854775807'' = Some 9223372036854775807 \<and>
   UpdateHSIConfig (ex_env_at ''9223372036854775807'') (ex_store_at ''9223372036854775807'') ex_update_request =
     ((200, H_message ''HSI config updated successfully''), ex_store_after ''-9223372036854775808'')"
proof -
  have scan: "Sscanf_d ''41abc'' = Some 41" "Sscanf_d ''9223372036854775807'' = Some 9223372036854775807"
    "ParseInt ''41abc'' = None" "ParseInt ''9223372036854775807'' = Some 9223372036854775807"
    by (simp_all add: scan_eval)
  have print: "Sprintf_d (int_incr 41) = ''42''"
    by (simp add: Sprintf_d_def int_incr_def dec_digits.simps)
  have "map_of (kvs (ex_store_at ''41abc'')) ''configs/n1/hsi/1'' =
     Some (json_HSIConfigWithMetadata (ex_record_at ''41abc''))"
    by (simp add: ex_store_at_def)
  moreover have "Unmarshal_HSIConfigWithMetadata (ex_env_at ''41abc'')
      (json_HSIConfigWithMetadata (ex_record_at ''41abc'')) = Some (ex_record_at ''41abc'')"
    by (simp add: ex_env_at_def)
  moreover have "ResourceVersion (Metadata (ex_record_at ''41abc'')) = ''41abc''"
    by (simp add: ex_record_at_def)
  moreover have "UpdateHSIConfig (ex_env_at ''41abc'') (ex_store_at ''41abc'') ex_update_request =
     ((200, H_message ''HSI config updated successfully''), ex_store_after ''42'')"
    by (simp add: ex_update_at scan print)
  moreover have "UpdateHSIConfig (ex_env_at ''9223372036854775807'') (ex_store_at ''9223372036854775807'')
       ex_update_request =
     ((200, H_message ''HSI config updated successfully''), ex_store_after ''-9223372036854775808'')"
    by (simp add: ex_update_at scan ex_Sprintf_wrap)
  ultimately show ?thesis using scan(3,4) by simp
qed

subsection \<open>The enable-status of a write\<close>

text \<open>
  C6, amended. A successful update of an existing record finds that the prior record
  decodes and stores its enable-status; the version it stores is \<open>"2"\<close> when
  \<open>fmt.Sscanf\<close> with \<open>%d\<close> reads no integer from the prior version, otherwise the decimal
  text of the integer read plus one, and of \<open>-2^63\<close> when the integer read is
  \<open>2^63 - 1\<close>. A successful create stores the enable-status \<open>"disabled"\<close>.
\<close>

theorem C6_update_keeps_status:
  "(\<forall>b st' old.
      UpdateHSIConfig E st c = ((200, b), st') \<and>
      map_of (kvs st) (hsi_key (param_nodeId c) (param_userId c)) = Some old \<longrightarrow>
      (\<exists>prior stored.
         Unmarshal_HSIConfigWithMetadata E old = Some prior \<and>
         map_of (kvs st') (hsi_key (param_nodeId c) (param_userId c)) =
           Some (Marshal_HSIConfigWithMetadata E stored) \<and>
         EnableStatus (Metadata stored) = EnableStatus (Metadata prior) \<and>
         ResourceVersion (Metadata stored) =
           (case Sscanf_d (ResourceVersion (Metadata prior)) of
              None \<Rightarrow> ''2''
            | Some n \<Rightarrow> Sprintf_d (if n = 2 ^ 63 - 1 then - (2 ^ 63) else n + 1)))) \<and>
   (\<forall>b st'.
      CreateHSIConfig E st c = ((200, b), st') \<longrightarrow>
      (\<exists>config stored.
         body_HSIConfig c = Some config \<and>
         map_of (kvs st') (hsi_key (param_nodeId c) (UserID config)) =
           Some (Marshal_HSIConfigWithMetadata E stored) \<and>
         EnableStatus (Metadata stored) = ''disabled''))"
proof (intro conjI allI impI)
  fix b st' old
  assume a: "UpdateHSIConfig E st c = ((200, b), st') \<and>
      map_of (kvs st) (hsi_key (param_nodeId c) (param_userId c)) = Some old"
  from UpdateHSIConfig_200 [OF conjunct1 [OF a]] conjunct2 [OF a]
  obtain config username prior where
    u: "UserID config = param_userId c" and
    k: "kvs st' =
       (hsi_key (param_nodeId c) (param_userId c),
        Marshal_HSIConfigWithMetadata E
          \<lparr>Config = config,
           Metadata = \<lparr>Node = param_nodeId c,
                       ResourceVersion = version_after E (Some old),
                       UpdatedBy = username, UpdatedAt = now_RFC3339 E,
                       EnableStatus = EnableStatus (Metadata prior)\<rparr>\<rparr>)
       # filter (\<lambda>kv. fst kv \<noteq> hsi_key (param_nodeId c) (param_userId c)) (kvs st)" and
    p: "Unmarshal_HSIConfigWithMetadata E old = Some prior"
    by auto
  let ?stored = "\<lparr>Config = config,
           Metadata = \<lparr>Node = param_nodeId c,
                       ResourceVersion = version_after E (Some old),
                       UpdatedBy = username, UpdatedAt = now_RFC3339 E,
                       EnableStatus = EnableStatus (Metadata prior)\<rparr>\<rparr>"
  have "ResourceVersion (Metadata ?stored) =
           (case Sscanf_d (ResourceVersion (Metadata prior)) of
              None \<Rightarrow> ''2''
            | Some n \<Rightarrow> Sprintf_d (if n = 2 ^ 63 - 1 then - (2 ^ 63) else n + 1))"
    by (simp add: version_after_eq p)
  with p k show "\<exists>prior stored.
         Unmarshal_HSIConfigWithMetadata E old = Some prior \<and>
         map_of (kvs st') (hsi_key (param_nodeId c) (param_userId c)) =
           Some (Marshal_HSIConfigWithMetadata E stored) \<and>
         EnableStatus (Metadata stored) = EnableStatus (Metadata prior) \<and>
         ResourceVersion (Metadata stored) =
           (case Sscanf_d (ResourceVersion (Metadata prior)) of
              None \<Rightarrow> ''2''
            | Some n \<Rightarrow> Sprintf_d (if n = 2 ^ 63 - 1 then - (2 ^ 63) else n + 1))"
    by (intro exI [of _ prior] exI [of _ ?stored]) simp
next
  fix b st'
  assume "CreateHSIConfig E st c = ((200, b), st')"
  from CreateHSIConfig_200 [OF this] obtain config username where
    b: "body_HSIConfig c = Some config" and
    k: "kvs st' =
       (hsi_key (param_nodeId c) (UserID config),
        Marshal_HSIConfigWithMetadata E
          \<lparr>Config = config,
           Metadata = \<lparr>Node = param_nodeId c,
                       ResourceVersion = version_after E (map_of (kvs st) (hsi_key (param_nodeId c) (UserID config))),
                       UpdatedBy = username, UpdatedAt = now_RFC3339 E,
                       EnableStatus = ''disabled''\<rparr>\<rparr>)
       # filter (\<lambda>kv. fst kv \<noteq> hsi_key (param_nodeId c) (UserID config)) (kvs st)"
    by blast
  let ?stored = "\<lparr>Config = config,
           Metadata = \<lparr>Node = param_nodeId c,
                       ResourceVersion = version_after E (map_of (kvs st) (hsi_key (param_nodeId c) (UserID config))),
                       UpdatedBy = username, UpdatedAt = now_RFC3339 E,
                       EnableStatus = ''disabled''\<rparr>\<rparr>"
  from b k show "\<exists>config stored.
         body_HSIConfig c = Some config \<and>
         map_of (kvs st') (hsi_key (param_nodeId c) (UserID config)) =
           Some (Marshal_HSIConfigWithMetadata E stored) \<and>
         EnableStatus (Metadata stored) = ''disabled''"
    by (intro exI [of _ config] exI [of _ ?stored]) simp
qed

theorem C6_update_keeps_status_witness:
  "UpdateHSIConfig ex_env ex_store ex_update_request =
     ((200, H_message ''HSI config updated successfully''), ex_store_updated) \<and>
   (\<exists>stored. map_of (kvs ex_store_updated) ''configs/n1/hsi/1'' =
        Some (Marshal_HSIConfigWithMetadata ex_env stored) \<and>
      EnableStatus (Metadata stored) = ''enabled'' \<and> ResourceVersion (Metadata stored) = ''42'') \<and>
   UpdateHSIConfig (ex_env_at (ex_spaces @ ''7'')) (ex_store_at (ex_spaces @ ''7'')) ex_update_request =
     ((200, H_message ''HSI config updated successfully''), ex_store_after ''8'') \<and>
   (\<exists>stored. map_of (kvs (ex_store_after ''8'')) ''configs/n1/hsi/1'' =
        Some (Marshal_HSIConfigWithMetadata (ex_env_at (ex_spaces @ ''7'')) stored) \<and>
      EnableStatus (Metadata stored) = ''enabled'' \<and> ResourceVersion (Metadata stored) = ''8'') \<and>
   CreateHSIConfig ex_env ex_store (ex_create_request ''2'' ''200'') =
     ((200, H_message ''HSI config created successfully''),
      \<lparr>kvs = [ex_created ''1'', (''configs/n1/hsi/1'', json_HSIConfigWithMetadata ex_record)],
        faults = []\<rparr>) \<and>
   (\<exists>stored. fst (ex_created ''1'') = ''configs/n1/hsi/2'' \<and>
      snd (ex_created ''1'') = Marshal_HSIConfigWithMetadata ex_env stored \<and>
      EnableStatus (Metadata stored) = ''disabled'')"
proof -
  have req: "param_nodeId ex_update_request = ''n1''" "param_userId ex_update_request = ''1''"
    "param_nodeId (ex_create_request ''2'' ''200'') = ''n1''"
    "body_HSIConfig (ex_create_request ''2'' ''200'') = Some (ex_config ''2'' ''200'')"
    "UserID (ex_config ''2'' ''200'') = ''2''"
    by (simp_all add: ex_update_request_def ex_create_request_def ex_request_def ex_config_def)
  have key: "hsi_key ''n1'' ''1'' = ''configs/n1/hsi/1''" "hsi_key ''n1'' ''2'' = ''configs/n1/hsi/2''"
    by (simp_all add: hsi_key_def)
  have prior: "map_of (kvs ex_store) ''configs/n1/hsi/1'' = Some (json_HSIConfigWithMetadata ex_record)"
    "map_of (kvs (ex_store_at v)) ''configs/n1/hsi/1'' = Some (json_HSIConfigWithMetadata (ex_record_at v))" for v
    by (simp_all add: ex_store_def ex_store_at_def)
  have dec: "Unmarshal_HSIConfigWithMetadata ex_env (json_HSIConfigWithMetadata ex_record) = Some ex_record"
    "Unmarshal_HSIConfigWithMetadata (ex_env_at v) (json_HSIConfigWithMetadata (ex_record_at v)) =
       Some (ex_record_at v)" for v
    by (simp_all add: ex_env_def ex_env_at_def)
  have rec: "ResourceVersion (Metadata ex_record) = ''41''" "EnableStatus (Metadata ex_record) = ''enabled''"
    "ResourceVersion (Metadata (ex_record_at v)) = v" "EnableStatus (Metadata (ex_record_at v)) = ''enabled''" for v
    by (simp_all add: ex_record_def ex_record_at_def)
  have scan: "Sscanf_d ''41'' = Some 41" "Sscanf_d (ex_spaces @ ''7'') = Some 7"
    by (simp_all add: scan_eval ex_spaces_def)
  have print: "Sprintf_d 42 = ''42''" "Sprintf_d 8 = ''8''" "Sprintf_d (int_incr 7) = ''8''"
    by (simp_all add: Sprintf_d_def int_incr_def dec_digits.simps)
  have new: "kvs \<lparr>kvs = [ex_created w, x], faults = []\<rparr> = [ex_created w, x]"
    "fst (ex_created w) = ''configs/n1/hsi/2''" for w x
    by (simp_all add: ex_created_def)
  note u1 = ex_update
  from conjunct1 [OF C6_update_keeps_status [of ex_env ex_store ex_update_request]] u1 prior(1)
  have "\<exists>prior stored.
         Unmarshal_HSIConfigWithMetadata ex_env (json_HSIConfigWithMetadata ex_record) = Some prior \<and>
         map_of (kvs ex_store_updated) ''configs/n1/hsi/1'' =
           Some (Marshal_HSIConfigWithMetadata ex_env stored) \<and>
         EnableStatus (Metadata stored) = EnableStatus (Metadata prior) \<and>
         ResourceVersion (Metadata stored) =
           (case Sscanf_d (ResourceVersion (Metadata prior)) of
              None \<Rightarrow> ''2''
            | Some n \<Rightarrow> Sprintf_d (if n = 2 ^ 63 - 1 then - (2 ^ 63) else n + 1))"
    unfolding req key by blast
  then have w1: "\<exists>stored. map_of (kvs ex_store_updated) ''configs/n1/hsi/1'' =
        Some (Marshal_HSIConfigWithMetadata ex_env stored) \<and>
      EnableStatus (Metadata stored) = ''enabled'' \<and> ResourceVersion (Metadata stored) = ''42''"
    by (auto simp: dec rec scan print)
  have u2: "UpdateHSIConfig (ex_env_at (ex_spaces @ ''7'')) (ex_store_at (ex_spaces @ ''7'')) ex_update_request =
     ((200, H_message ''HSI config updated successfully''), ex_store_after ''8'')"
    by (simp add: ex_update_at scan print)
  from conjunct1 [OF C6_update_keeps_status [of "ex_env_at (ex_spaces @ ''7'')" "ex_store_at (ex_spaces @ ''7'')" ex_update_request]] u2 prior(2)
  have "\<exists>prior stored.
         Unmarshal_HSIConfigWithMetadata (ex_env_at (ex_spaces @ ''7'')) (json_HSIConfigWithMetadata (ex_record_at (ex_spaces @ ''7''))) =
           Some prior \<and>
         map_of (kvs (ex_store_after ''8'')) ''configs/n1/hsi/1'' =
           Some (Marshal_HSIConfigWithMetadata (ex_env_at (ex_spaces @ ''7'')) stored) \<and>
         EnableStatus (Metadata stored) = EnableStatus (Metadata prior) \<and>
         ResourceVersion (Metadata stored) =
           (case Sscanf_d (ResourceVersion (Metadata prior)) of
              None \<Rightarrow> ''2''
            | Some n \<Rightarrow> Sprintf_d (if n = 2 ^ 63 - 1 then - (2 ^ 63) else n + 1))"
    unfolding req key by blast
  then have w2: "\<exists>stored. map_of (kvs (ex_store_after ''8'')) ''configs/n1/hsi/1'' =
        Some (Marshal_HSIConfigWithMetadata (ex_env_at (ex_spaces @ ''7'')) stored) \<and>
      EnableStatus (Metadata stored) = ''enabled'' \<and> ResourceVersion (Metadata stored) = ''8''"
    by (auto simp: dec rec scan print)
  note c1 = ex_create_1
  from conjunct2 [OF C6_update_keeps_status [of ex_env ex_store "ex_create_request ''2'' ''200''"]] c1
  have w3: "\<exists>stored. fst (ex_created ''1'') = ''configs/n1/hsi/2'' \<and>
      snd (ex_created ''1'') = Marshal_HSIConfigWithMetadata ex_env stored \<and>
      EnableStatus (Metadata stored) = ''disabled''"
    by (auto simp: req key new)
  from u1 w1 u2 w2 c1 w3 show ?thesis by blast
qed

text \<open>
  The claim as stated fails on an existing record whose version is empty or not a number:
  the update succeeds and stores the version \<open>2\<close>, which is not the prior version plus
  one. It fails on the prior version \<open>9223372036854775807\<close> too.
\<close>

theorem C6_counterexample:
  "map_of (kvs (ex_store_at [])) ''configs/n1/hsi/1'' = Some (json_HSIConfigWithMetadata (ex_record_at [])) \<and>
   Unmarshal_HSIConfigWithMetadata (ex_env_at []) (json_HSIConfigWithMetadata (ex_record_at [])) =
     Some (ex_record_at []) \<and>
   ResourceVersion (Metadata (ex_record_at [])) = [] \<and>
   UpdateHSIConfig (ex_env_at []) (ex_store_at []) ex_update_request =
     ((200, H_message ''HSI config updated successfully''), ex_store_after ''2'') \<and>
   ResourceVersion (Metadata (ex_record_at ''v1'')) = ''v1'' \<and>
   UpdateHSIConfig (ex_env_at ''v1'') (ex_store_at ''v1'') ex_update_request =
     ((200, H_message ''HSI config updated successfully''), ex_store_after ''2'') \<and>
   ResourceVersion (Metadata (ex_record_at ''9223372036854775807'')) = ''9223372036854775807'' \<and>
   UpdateHSIConfig (ex_env_at ''9223372036854775807'') (ex_store_at ''9223372036854775807'') ex_update_request =
     ((200, H_message ''HSI config updated successfully''), ex_store_after ''-9223372036854775808'')"
proof -
  have scan: "Sscanf_d ''v1'' = None" "Sscanf_d ''9223372036854775807'' = Some 9223372036854775807"
    by (simp_all add: scan_eval)
  have "map_of (kvs (ex_store_at [])) ''configs/n1/hsi/1'' = Some (json_HSIConfigWithMetadata (ex_record_at []))"
    by (simp add: ex_store_at_def)
  moreover have "Unmarshal_HSIConfigWithMetadata (ex_env_at []) (json_HSIConfigWithMetadata (ex_record_at [])) =
     Some (ex_record_at [])"
    by (simp add: ex_env_at_def)
  moreover have "ResourceVersion (Metadata (ex_record_at v)) = v" for v
    by (simp add: ex_record_at_def)
  moreover have "UpdateHSIConfig (ex_env_at []) (ex_store_at []) ex_update_request =
     ((200, H_message ''HSI config updated successfully''), ex_store_after ''2'')"
    by (simp add: ex_update_at Sscanf_d_Nil)
  moreover have "UpdateHSIConfig (ex_env_at ''v1'') (ex_store_at ''v1'') ex_update_request =
     ((200, H_message ''HSI config updated successfully''), ex_store_after ''2'')"
    by (simp add: ex_update_at scan)
  moreover have "UpdateHSIConfig (ex_env_at ''9223372036854775807'') (ex_store_at ''9223372036854775807'')
       ex_update_request =
     ((200, H_message ''HSI config updated successfully''), ex_store_after ''-9223372036854775808'')"
    by (simp add: ex_update_at scan ex_Sprintf_wrap)
  ultimately show ?thesis by simp
qed

subsection \<open>The VLAN of a write\<close>

text \<open>
  C4. For a create or an update that passed the earlier validations (node and user id,
  required fields, subscriber count), the store answering: if a record under
  \<open>configs/{nodeId}/hsi/\<close> decodes to the VLAN of the request and to another user id,
  the answer is 409 and its message ends with the user id of such a record; if there is
  none, the request is not answered 409 and, the token naming a user (and, for an
  update, the record at the key decoding if there is one), the record is stored and the
  answer is 200.
\<close>

theorem C4_vlan_conflict:
  assumes "handler = CreateHSIConfig \<or> handler = UpdateHSIConfig \<and> param_userId c = UserID config"
    and "param_nodeId c \<noteq> []" and "body_HSIConfig c = Some config"
    and "required_field_missing config = None"
    and "\<not> exceeds_count (fst (GetSubscriberCount E st (param_nodeId c))) (UserID config)"
    and "faults st = []"
  shows "((\<exists>k v r. (k, v) \<in> set (kvs st) \<and> HasPrefix k (hsi_prefix (param_nodeId c)) \<and>
             Unmarshal_HSIConfigWithMetadata E v = Some r \<and>
             VlanID (Config r) = VlanID config \<and> UserID (Config r) \<noteq> UserID config) \<longrightarrow>
          (\<exists>k v r. (k, v) \<in> set (kvs st) \<and> HasPrefix k (hsi_prefix (param_nodeId c)) \<and>
             Unmarshal_HSIConfigWithMetadata E v = Some r \<and>
             VlanID (Config r) = VlanID config \<and> UserID (Config r) \<noteq> UserID config \<and>
             handler E st c =
               ((409, H_error (''Input VLAN has been already used by other user: '' @ UserID (Config r))),
                st))) \<and>
         (\<not> (\<exists>k v r. (k, v) \<in> set (kvs st) \<and> HasPrefix k (hsi_prefix (param_nodeId c)) \<and>
             Unmarshal_HSIConfigWithMetadata E v = Some r \<and>
             VlanID (Config r) = VlanID config \<and> UserID (Config r) \<noteq> UserID config) \<longrightarrow>
          fst (fst (handler E st c)) \<noteq> 409 \<and>
          (\<forall>username.
             getUserFromToken E (header_Authorization c) = Inr username \<and>
             (handler = UpdateHSIConfig \<longrightarrow>
                (\<forall>old. map_of (kvs st) (hsi_key (param_nodeId c) (UserID config)) = Some old \<longrightarrow>
                   Unmarshal_HSIConfigWithMetadata E old \<noteq> None)) \<longrightarrow>
             (\<exists>stored. fst (fst (handler E st c)) = 200 \<and> Config stored = config \<and>
                map_of (kvs (snd (handler E st c))) (hsi_key (param_nodeId c) (UserID config)) =
                  Some (Marshal_HSIConfigWithMetadata E stored))))"
proof -
  let ?Kvs = "sort_key fst (filter (\<lambda>kv. HasPrefix (fst kv) (hsi_prefix (param_nodeId c))) (kvs st))"
  let ?scan = "isVlanInUse_scan E ?Kvs (VlanID config) (UserID config)"
  let ?key = "hsi_key (param_nodeId c) (UserID config)"
  have set_Kvs: "set ?Kvs = {kv \<in> set (kvs st). HasPrefix (fst kv) (hsi_prefix (param_nodeId c))}"
    by simp
  note valid = assms(2-4) assms(6) assms(5)
  show ?thesis
  proof (intro conjI impI)
    assume "\<exists>k v r. (k, v) \<in> set (kvs st) \<and> HasPrefix k (hsi_prefix (param_nodeId c)) \<and>
             Unmarshal_HSIConfigWithMetadata E v = Some r \<and>
             VlanID (Config r) = VlanID config \<and> UserID (Config r) \<noteq> UserID config"
    then obtain k v r where "(k, v) \<in> set ?Kvs" "Unmarshal_HSIConfigWithMetadata E (snd (k, v)) = Some r"
      "VlanID (Config r) = VlanID config" "UserID (Config r) \<noteq> UserID config"
      using set_Kvs by auto
    then have "fst ?scan" by (rule isVlanInUse_scan_conflict)
    then obtain u where scan: "?scan = (True, u)" by (cases ?scan) auto
    from isVlanInUse_scan_True [OF scan] set_Kvs obtain k' v' r' where
      found: "(k', v') \<in> set (kvs st)" "HasPrefix k' (hsi_prefix (param_nodeId c))"
        "Unmarshal_HSIConfigWithMetadata E v' = Some r'"
        "VlanID (Config r') = VlanID config" "UserID (Config r') \<noteq> UserID config"
        "u = UserID (Config r')"
      by auto
    from assms(1) have "handler E st c =
        ((409, H_error (''Input VLAN has been already used by other user: '' @ u)), st)"
      using CreateHSIConfig_conflict [OF valid scan] UpdateHSIConfig_conflict [OF valid scan]
      by auto
    with found show "\<exists>k v r. (k, v) \<in> set (kvs st) \<and> HasPrefix k (hsi_prefix (param_nodeId c)) \<and>
             Unmarshal_HSIConfigWithMetadata E v = Some r \<and>
             VlanID (Config r) = VlanID config \<and> UserID (Config r) \<noteq> UserID config \<and>
             handler E st c =
               ((409, H_error (''Input VLAN has been already used by other user: '' @ UserID (Config r))),
                st)"
      by blast
  next
    assume none: "\<not> (\<exists>k v r. (k, v) \<in> set (kvs st) \<and> HasPrefix k (hsi_prefix (param_nodeId c)) \<and>
             Unmarshal_HSIConfigWithMetadata E v = Some r \<and>
             VlanID (Config r) = VlanID config \<and> UserID (Config r) \<noteq> UserID config)"
    have free: "\<not> fst ?scan"
    proof
      assume "fst ?scan"
      then obtain u where "?scan = (True, u)" by (cases ?scan) auto
      from isVlanInUse_scan_True [OF this] set_Kvs none show False by auto
    qed
    note create = CreateHSIConfig_no_conflict [OF valid free]
    note update = UpdateHSIConfig_no_conflict [OF valid free]
    show "fst (fst (handler E st c)) \<noteq> 409"
      using assms(1) create update by (auto split: sum.splits)
    show "\<forall>username.
             getUserFromToken E (header_Authorization c) = Inr username \<and>
             (handler = UpdateHSIConfig \<longrightarrow>
                (\<forall>old. map_of (kvs st) ?key = Some old \<longrightarrow>
                   Unmarshal_HSIConfigWithMetadata E old \<noteq> None)) \<longrightarrow>
             (\<exists>stored. fst (fst (handler E st c)) = 200 \<and> Config stored = config \<and>
                map_of (kvs (snd (handler E st c))) ?key =
                  Some (Marshal_HSIConfigWithMetadata E stored))"
    proof (intro allI impI, elim conjE)
      fix username
      assume tok: "getUserFromToken E (header_Authorization c) = Inr username"
        and dec: "handler = UpdateHSIConfig \<longrightarrow>
                (\<forall>old. map_of (kvs st) ?key = Some old \<longrightarrow>
                   Unmarshal_HSIConfigWithMetadata E old \<noteq> None)"
      from assms(1) show "\<exists>stored. fst (fst (handler E st c)) = 200 \<and> Config stored = config \<and>
                map_of (kvs (snd (handler E st c))) ?key =
                  Some (Marshal_HSIConfigWithMetadata E stored)"
      proof (elim disjE conjE)
        assume h: "handler = CreateHSIConfig"
        let ?stored = "\<lparr>Config = config,
            Metadata = \<lparr>Node = param_nodeId c,
              ResourceVersion = version_after E (map_of (kvs st) ?key),
              UpdatedBy = username, UpdatedAt = now_RFC3339 E,
              EnableStatus = ''disabled''\<rparr>\<rparr>"
        have "handler E st c =
            ((200, H_message ''HSI config created successfully''),
             st\<lparr>kvs := (?key, Marshal_HSIConfigWithMetadata E ?stored)
                 # filter (\<lambda>kv. fst kv \<noteq> ?key) (kvs st)\<rparr>)"
          by (simp add: h create tok)
        then show ?thesis
          by (intro exI [of _ ?stored]) simp
      next
        assume h: "handler = UpdateHSIConfig" and u: "param_userId c = UserID config"
        from dec h have "\<exists>s. fst (isHSIConfigEnabled E st (param_nodeId c) (UserID config)) = Inr s"
          by (auto simp: isHSIConfigEnabled_no_faults [OF assms(6)] split: option.splits)
        then obtain s where s: "fst (isHSIConfigEnabled E st (param_nodeId c) (UserID config)) = Inr s" ..
        let ?stored = "\<lparr>Config = config,
            Metadata = \<lparr>Node = param_nodeId c,
              ResourceVersion = version_after E (map_of (kvs st) ?key),
              UpdatedBy = username, UpdatedAt = now_RFC3339 E,
              EnableStatus = s\<rparr>\<rparr>"
        have "handler E st c =
            ((200, H_message ''HSI config updated successfully''),
             st\<lparr>kvs := (?key, Marshal_HSIConfigWithMetadata E ?stored)
                 # filter (\<lambda>kv. fst kv \<noteq> ?key) (kvs st)\<rparr>)"
          by (simp add: h update [OF u] tok s)
        then show ?thesis
          by (intro exI [of _ ?stored]) simp
      qed
    qed
  qed
qed

lemma ex_count_none: "GetSubscriberCount ex_env ex_store ''n1'' = (- 1, ex_store)"
  by (simp add: hsi_eval)

theorem C4_vlan_conflict_witness:
  "CreateHSIConfig ex_env ex_store (ex_create_request ''2'' ''100'') =
     ((409, H_error ''Input VLAN has been already used by other user: 1''), ex_store) \<and>
   fst (fst (CreateHSIConfig ex_env ex_store (ex_create_request ''2'' ''200''))) = 200"
proof -
  have valid: "param_nodeId (ex_create_request u v) \<noteq> []"
    "body_HSIConfig (ex_create_request u v) = Some (ex_config u v)" for u v
    by (simp_all add: ex_create_request_def ex_request_def)
  have fields: "required_field_missing (ex_config ''2'' v) = None" if "v \<noteq> []" for v
    using that by (simp add: required_field_missing_def ex_config_def)
  have count: "\<not> exceeds_count (fst (GetSubscriberCount ex_env ex_store (param_nodeId (ex_create_request u v))))
      (UserID (ex_config ''2'' v))" for u v
    by (simp add: ex_create_request_def ex_request_def ex_count_none exceeds_count_def)
  have healthy: "faults ex_store = []"
    by (simp add: ex_store_def)
  have dec: "Unmarshal_HSIConfigWithMetadata ex_env v = Some r \<longleftrightarrow>
      v = json_HSIConfigWithMetadata ex_record \<and> r = ex_record" for v r
    by (auto simp: ex_env_def)
  have store: "(k, v) \<in> set (kvs ex_store) \<longleftrightarrow>
      k = ''configs/n1/hsi/1'' \<and> v = json_HSIConfigWithMetadata ex_record" for k v
    by (auto simp: ex_store_def)
  have pre: "HasPrefix ''configs/n1/hsi/1'' (hsi_prefix (param_nodeId (ex_create_request u v)))" for u v
    by (simp add: HasPrefix_def hsi_prefix_def ex_create_request_def ex_request_def)
  have rec: "VlanID (Config ex_record) = ''100''" "UserID (Config ex_record) = ''1''"
    "VlanID (ex_config u v) = v" "UserID (ex_config u v) = u" for u v
    by (simp_all add: ex_record_def ex_config_def)
  have tok: "getUserFromToken ex_env (header_Authorization (ex_create_request u v)) = Inr ''admin''" for u v
    by (simp add: getUserFromToken_def ex_env_def ex_create_request_def ex_request_def)
  note busy = C4_vlan_conflict [where handler = CreateHSIConfig and c = "ex_create_request ''2'' ''100''"
      and config = "ex_config ''2'' ''100''" and st = ex_store and E = ex_env, OF disjI1 [OF refl] valid fields count healthy]
  have "CreateHSIConfig ex_env ex_store (ex_create_request ''2'' ''100'') =
     ((409, H_error ''Input VLAN has been already used by other user: 1''), ex_store)"
    using conjunct1 [OF busy] by (auto simp: dec store pre rec)
  moreover
  note free = C4_vlan_conflict [where handler = CreateHSIConfig and c = "ex_create_request ''2'' ''200''"
      and config = "ex_config ''2'' ''200''" and st = ex_store and E = ex_env, OF disjI1 [OF refl] valid fields count healthy]
  have fresh: "map_of (kvs ex_store) (hsi_key (param_nodeId (ex_create_request ''2'' ''200'')) ''2'') = None"
    by (simp add: ex_store_def hsi_key_def ex_create_request_def ex_request_def)
  have "fst (fst (CreateHSIConfig ex_env ex_store (ex_create_request ''2'' ''200''))) = 200"
    using conjunct2 [OF free] by (auto simp: dec store rec tok fresh)
  ultimately show ?thesis by simp
qed

section \<open>Reading a record that is not there\<close>

text \<open>
  C10, amended. For a request \<open>GET /api/config/{nodeId}/hsi/{userId}\<close> with both ids
  given, where the read of \<open>configs/{nodeId}/hsi/{userId}\<close> succeeds and there is no
  record at the key: if a valid count is obtained for the node and \<open>Atoi\<close> reads the
  user id as a number above it, the answer is 400 with the error
  \<open>"User ID exceeds subscriber count"\<close>; otherwise it is 500 with the error
  \<open>"HSI config not found"\<close>. It is never 404, and the store holds what it held. A
  valid count is obtained when the read of \<open>user_counts/{nodeId}/\<close> succeeds, the
  record exists and decodes, and \<open>Atoi\<close> reads its count as a number that is not
  negative.
\<close>

theorem C10_get_missing_record:
  assumes "param_nodeId c \<noteq> []" and "param_userId c \<noteq> []"
    and "etcd_Get st (count_key (param_nodeId c)) = (r, st1)"
    and "etcd_Get st1 (hsi_key (param_nodeId c) (param_userId c)) = (Inr Kvs, st2)"
    and "map_of (kvs st) (hsi_key (param_nodeId c) (param_userId c)) = None"
  shows "GetHSIConfig E st c =
           (case (case r of
                    Inl e \<Rightarrow> None
                  | Inr x \<Rightarrow>
                      (case map_of (kvs st) (count_key (param_nodeId c)) of
                         None \<Rightarrow> None
                       | Some v \<Rightarrow>
                           (case Unmarshal_SubscriberCountData E v of
                              None \<Rightarrow> None
                            | Some d \<Rightarrow>
                                (case Atoi (SubscriberCount d) of
                                   None \<Rightarrow> None
                                 | Some n \<Rightarrow> if 0 \<le> n then Some n else None)))) of
              None \<Rightarrow> ((500, H_error ''HSI config not found''), st2)
            | Some n \<Rightarrow>
                (case Atoi (param_userId c) of
                   None \<Rightarrow> ((500, H_error ''HSI config not found''), st2)
                 | Some m \<Rightarrow>
                     if n < m then ((400, H_error ''User ID exceeds subscriber count''), st1)
                     else ((500, H_error ''HSI config not found''), st2))) \<and>
         fst (fst (GetHSIConfig E st c)) \<noteq> 404 \<and> kvs st1 = kvs st \<and> kvs st2 = kvs st"
proof -
  note cnt = GetSubscriberCount_read [OF assms(3), of E]
  from etcd_Get_kvs [OF assms(3)] have k1: "kvs st1 = kvs st" .
  from etcd_Get_Inr [OF assms(4)] k1 assms(5) have k2: "Kvs = []" "kvs st2 = kvs st" by simp_all
  have eq: "GetHSIConfig E st c =
           (case (case r of
                    Inl e \<Rightarrow> None
                  | Inr x \<Rightarrow>
                      (case map_of (kvs st) (count_key (param_nodeId c)) of
                         None \<Rightarrow> None
                       | Some v \<Rightarrow>
                           (case Unmarshal_SubscriberCountData E v of
                              None \<Rightarrow> None
                            | Some d \<Rightarrow>
                                (case Atoi (SubscriberCount d) of
                                   None \<Rightarrow> None
                                 | Some n \<Rightarrow> if 0 \<le> n then Some n else None)))) of
              None \<Rightarrow> ((500, H_error ''HSI config not found''), st2)
            | Some n \<Rightarrow>
                (case Atoi (param_userId c) of
                   None \<Rightarrow> ((500, H_error ''HSI config not found''), st2)
                 | Some m \<Rightarrow>
                     if n < m then ((400, H_error ''User ID exceeds subscriber count''), st1)
                     else ((500, H_error ''HSI config not found''), st2)))"
    using assms(1,2,4) k2
    by (simp add: GetHSIConfig_def Let_def cnt exceeds_count_def split: sum.splits option.splits)
  have "fst (fst (GetHSIConfig E st c)) \<noteq> 404"
    unfolding eq by (simp split: sum.splits option.splits)
  with eq k1 k2 show ?thesis by simp
qed

theorem C10_get_missing_record_witness:
  "GetHSIConfig ex_env ex_store (ex_request\<lparr>param_userId := ''9''\<rparr>) =
     ((500, H_error ''HSI config not found''), ex_store) \<and>
   GetHSIConfig ex_env (ex_store_counted ex_count_5) (ex_request\<lparr>param_userId := ''4''\<rparr>) =
     ((500, H_error ''HSI config not found''), ex_store_counted ex_count_5) \<and>
   GetHSIConfig ex_env (ex_store_counted ex_count_5) (ex_request\<lparr>param_userId := ''x9''\<rparr>) =
     ((500, H_error ''HSI config not found''), ex_store_counted ex_count_5) \<and>
   GetHSIConfig ex_env (ex_store_counted ex_count_minus_5) (ex_request\<lparr>param_userId := ''6''\<rparr>) =
     ((500, H_error ''HSI config not found''), ex_store_counted ex_count_minus_5) \<and>
   GetHSIConfig ex_env (ex_store_counted ex_count_5) (ex_request\<lparr>param_userId := ''6''\<rparr>) =
     ((400, H_error ''User ID exceeds subscriber count''), ex_store_counted ex_count_5) \<and>
   GetHSIConfig ex_env (ex_store_faulty [True]) (ex_request\<lparr>param_userId := ''6''\<rparr>) =
     ((500, H_error ''HSI config not found''), ex_store_faulty [])"
proof -
  have ids: "param_nodeId (ex_request\<lparr>param_userId := u\<rparr>) = ''n1''"
    "param_userId (ex_request\<lparr>param_userId := u\<rparr>) = u" for u
    by (simp_all add: ex_request_def)
  have keys: "count_key ''n1'' = ''user_counts/n1/''" "hsi_key ''n1'' u = ''configs/n1/hsi/'' @ u" for u
    by (simp_all add: count_key_def hsi_key_def)
  have store: "kvs ex_store = [(''configs/n1/hsi/1'', json_HSIConfigWithMetadata ex_record)]"
    "kvs (ex_store_counted v) =
      [(''user_counts/n1/'', v), (''configs/n1/hsi/7'', ''{}''),
       (''configs/n1/hsi/abc'', ''{}''), (''configs/n1/hsi/3'', ''{}'')]"
    "kvs (ex_store_faulty fs) = kvs (ex_store_counted ex_count_5)" for v fs
    by (simp_all add: ex_store_def ex_store_counted_def ex_store_faulty_def)
  have healthy: "faults ex_store = []" "faults (ex_store_counted v) = []" "faults (ex_store_faulty []) = []" for v
    by (simp_all add: ex_store_def ex_store_counted_def ex_store_faulty_def)
  have dec: "Unmarshal_SubscriberCountData ex_env ex_count_5 = Some \<lparr>SubscriberCount = ''5''\<rparr>"
    "Unmarshal_SubscriberCountData ex_env ex_count_minus_5 = Some \<lparr>SubscriberCount = ''-5''\<rparr>"
    by (simp_all add: ex_env_def ex_count_5_def ex_count_minus_5_def)
  have nums: "Atoi ''9'' = Some 9" "Atoi ''4'' = Some 4" "Atoi ''x9'' = None" "Atoi ''6'' = Some 6"
    "Atoi ''5'' = Some 5" "Atoi ''-5'' = Some (- 5)"
    by (simp_all add: Atoi_def ParseInt_def is_digit_def digits_val_def digit_val_def)
  have fail: "etcd_Get (ex_store_faulty [True]) k = (Inl EtcdError, ex_store_faulty [])" for k
    by (simp add: etcd_Get_def next_fault_def ex_store_faulty_def)
  note a = C10_get_missing_record [where E = ex_env and c = "ex_request\<lparr>param_userId := ''9''\<rparr>",
      OF _ _ etcd_Get_no_faults [OF healthy(1)] etcd_Get_no_faults [OF healthy(1)]]
  have 1: "GetHSIConfig ex_env ex_store (ex_request\<lparr>param_userId := ''9''\<rparr>) =
     ((500, H_error ''HSI config not found''), ex_store)"
    using a by (simp add: ids keys store)
  have 2: "GetHSIConfig ex_env (ex_store_counted ex_count_5) (ex_request\<lparr>param_userId := ''4''\<rparr>) =
     ((500, H_error ''HSI config not found''), ex_store_counted ex_count_5)"
    using C10_get_missing_record [where E = ex_env and st = "ex_store_counted ex_count_5" and c = "ex_request\<lparr>param_userId := ''4''\<rparr>",
        OF _ _ etcd_Get_no_faults [OF healthy(2)] etcd_Get_no_faults [OF healthy(2)]]
    by (simp add: ids keys store dec nums)
  have 3: "GetHSIConfig ex_env (ex_store_counted ex_count_5) (ex_request\<lparr>param_userId := ''x9''\<rparr>) =
     ((500, H_error ''HSI config not found''), ex_store_counted ex_count_5)"
    using C10_get_missing_record [where E = ex_env and st = "ex_store_counted ex_count_5" and c = "ex_request\<lparr>param_userId := ''x9''\<rparr>",
        OF _ _ etcd_Get_no_faults [OF healthy(2)] etcd_Get_no_faults [OF healthy(2)]]
    by (simp add: ids keys store dec nums)
  have 4: "GetHSIConfig ex_env (ex_store_counted ex_count_minus_5) (ex_request\<lparr>param_userId := ''6''\<rparr>) =
     ((500, H_error ''HSI config not found''), ex_store_counted ex_count_minus_5)"
    using C10_get_missing_record [where E = ex_env and st = "ex_store_counted ex_count_minus_5" and c = "ex_request\<lparr>param_userId := ''6''\<rparr>",
        OF _ _ etcd_Get_no_faults [OF healthy(2)] etcd_Get_no_faults [OF healthy(2)]]
    by (simp add: ids keys store dec nums)
  have 5: "GetHSIConfig ex_env (ex_store_counted ex_count_5) (ex_request\<lparr>param_userId := ''6''\<rparr>) =
     ((400, H_error ''User ID exceeds subscriber count''), ex_store_counted ex_count_5)"
    using C10_get_missing_record [where E = ex_env and st = "ex_store_counted ex_count_5" and c = "ex_request\<lparr>param_userId := ''6''\<rparr>",
        OF _ _ etcd_Get_no_faults [OF healthy(2)] etcd_Get_no_faults [OF healthy(2)]]
    by (simp add: ids keys store dec nums)
  note f = C10_get_missing_record [where E = ex_env and c = "ex_request\<lparr>param_userId := ''6''\<rparr>",
      OF _ _ fail etcd_Get_no_faults [OF healthy(3)]]
  have 6: "GetHSIConfig ex_env (ex_store_faulty [True]) (ex_request\<lparr>param_userId := ''6''\<rparr>) =
     ((500, H_error ''HSI config not found''), ex_store_faulty [])"
    using f by (simp add: ids keys store)
  from 1 2 3 4 5 6 show ?thesis by simp
qed

text \<open>
  The claim as stated fails when the user id is above the subscriber count of the node:
  with the count 5 and no record of user 9, the read of the key would succeed and find
  nothing, and the answer is 400, not 500.
\<close>

theorem C10_counterexample:
  "map_of (kvs (ex_store_counted ex_count_5)) ''configs/n1/hsi/9'' = None \<and>
   etcd_Get (ex_store_counted ex_count_5) ''configs/n1/hsi/9'' = (Inr [], ex_store_counted ex_count_5) \<and>
   GetHSIConfig ex_env (ex_store_counted ex_count_5) (ex_request\<lparr>param_userId := ''9''\<rparr>) =
     ((400, H_error ''User ID exceeds subscriber count''), ex_store_counted ex_count_5)"
  by (simp add: ids_eval GetHSIConfig_def exceeds_count_def hsi_key_def)

section \<open>Listing the user ids of a node\<close>

lemma map_fst_insort_key: "map fst (insort_key fst x ys) = insort (fst x) (map fst ys)"
  by (induction ys) simp_all

lemma map_fst_sort_key: "map fst (sort_key fst xs) = sort (map fst xs)"
  by (induction xs) (simp_all add: map_fst_insort_key)

lemma collect_user_ids_filter:
  "\<forall>kv \<in> set Kvs. HasPrefix (fst kv) p \<Longrightarrow>
     collect_user_ids Kvs p n =
       filter (\<lambda>u. u \<noteq> [] \<and> (0 \<le> n \<longrightarrow> (case Atoi u of None \<Rightarrow> True | Some m \<Rightarrow> m \<le> n)))
         (map (drop (length p)) (map fst Kvs))"
proof (induction Kvs)
  case Nil
  then show ?case by simp
next
  case (Cons kv rest)
  from Cons.prems have "HasPrefix (fst kv) p" by simp
  then have "length p < length (fst kv) \<longleftrightarrow> drop (length p) (fst kv) \<noteq> []"
    by (auto simp: HasPrefix_def)
  with Cons show ?case
    by (auto simp: Let_def split: option.splits)
qed

text \<open>
  C5, amended. For a node id that is not empty, when the read of the keys under
  \<open>configs/{nodeId}/hsi/\<close> succeeds, \<open>GET /api/config/{nodeId}/hsi/users\<close> answers 200
  with exactly this list: the suffixes, after the prefix, of those keys in ascending
  order of the keys, without the empty suffix and, when a valid count is obtained,
  without the user ids that \<open>Atoi\<close> reads as a number above it. A valid count is
  obtained when the read of \<open>user_counts/{nodeId}/\<close> succeeds, the record exists and
  decodes, and \<open>Atoi\<close> reads its count as a number that is not negative. User ids that
  are not numbers are kept; when no valid count is obtained, nothing else is left out.
\<close>

theorem C5_user_ids:
  assumes "param_nodeId c \<noteq> []"
    and "etcd_Get_WithPrefix st (hsi_prefix (param_nodeId c)) = (Inr Kvs, st1)"
    and "etcd_Get st1 (count_key (param_nodeId c)) = (r, st2)"
  shows "GetHSIUserIds E st c =
     ((200, H_user_ids
        (filter
           (\<lambda>u. u \<noteq> [] \<and>
              (case (case r of
                       Inl e \<Rightarrow> None
                     | Inr x \<Rightarrow>
                         (case map_of (kvs st) (count_key (param_nodeId c)) of
                            None \<Rightarrow> None
                          | Some v \<Rightarrow>
                              (case Unmarshal_SubscriberCountData E v of
                                 None \<Rightarrow> None
                               | Some d \<Rightarrow>
                                   (case Atoi (SubscriberCount d) of
                                      None \<Rightarrow> None
                                    | Some n \<Rightarrow> if 0 \<le> n then Some n else None)))) of
                 None \<Rightarrow> True
               | Some n \<Rightarrow> (case Atoi u of None \<Rightarrow> True | Some m \<Rightarrow> m \<le> n)))
           (map (drop (length (hsi_prefix (param_nodeId c))))
              (sort (filter (\<lambda>k. HasPrefix k (hsi_prefix (param_nodeId c))) (map fst (kvs st))))))),
      st2)"
proof -
  let ?p = "hsi_prefix (param_nodeId c)"
  from etcd_Get_WithPrefix_Inr [OF assms(2)]
  have Kvs: "Kvs = sort_key fst (filter (\<lambda>kv. HasPrefix (fst kv) ?p) (kvs st))"
    and k1: "kvs st1 = kvs st" by simp_all
  have keys: "map fst Kvs = sort (filter (\<lambda>k. HasPrefix k ?p) (map fst (kvs st)))"
    unfolding Kvs map_fst_sort_key by (simp add: filter_map comp_def)
  have pre: "\<forall>kv \<in> set Kvs. HasPrefix (fst kv) ?p"
    unfolding Kvs by simp
  note ids = collect_user_ids_filter [OF pre]
  note cnt = GetSubscriberCount_read [OF assms(3), of E, unfolded k1]
  have "GetHSIUserIds E st c =
      ((200, H_user_ids (collect_user_ids Kvs ?p (fst (GetSubscriberCount E st1 (param_nodeId c))))), st2)"
    using assms(1) by (simp add: GetHSIUserIds_def Let_def assms(2) cnt)
  also have "collect_user_ids Kvs ?p (fst (GetSubscriberCount E st1 (param_nodeId c))) =
      filter
           (\<lambda>u. u \<noteq> [] \<and>
              (case (case r of
                       Inl e \<Rightarrow> None
                     | Inr x \<Rightarrow>
                         (case map_of (kvs st) (count_key (param_nodeId c)) of
                            None \<Rightarrow> None
                          | Some v \<Rightarrow>
                              (case Unmarshal_SubscriberCountData E v of
                                 None \<Rightarrow> None
                               | Some d \<Rightarrow>
                                   (case Atoi (SubscriberCount d) of
                                      None \<Rightarrow> None
                                    | Some n \<Rightarrow> if 0 \<le> n then Some n else None)))) of
                 None \<Rightarrow> True
               | Some n \<Rightarrow> (case Atoi u of None \<Rightarrow> True | Some m \<Rightarrow> m \<le> n)))
           (map (drop (length ?p)) (sort (filter (\<lambda>k. HasPrefix k ?p) (map fst (kvs st)))))"
    unfolding ids keys cnt
    by (rule filter_cong [OF refl]) (simp split: sum.splits option.splits)
  finally show ?thesis .
qed

text \<open>
  The claim as stated fails on a count that reads as a negative integer: with the count
  \<open>-5\<close> the user id \<open>7\<close>, an integer greater than the count, is returned. It fails on
  a key that is the prefix itself, whose suffix, the empty one, is not returned. And it
  fails when the read of the count record fails: the record holds the count 5, and the
  user id \<open>7\<close> is returned.
\<close>

theorem C5_counterexample:
  "Unmarshal_SubscriberCountData ex_env ex_count_minus_5 = Some \<lparr>SubscriberCount = ''-5''\<rparr> \<and>
   Atoi ''-5'' = Some (- 5) \<and> Atoi ''7'' = Some 7 \<and> (- 5 :: int) < 7 \<and>
   GetHSIUserIds ex_env (ex_store_counted ex_count_minus_5) ex_request =
     ((200, H_user_ids [''3'', ''7'', ''abc'']), ex_store_counted ex_count_minus_5) \<and>
   HasPrefix ''configs/n1/hsi/'' (hsi_prefix ''n1'') \<and>
   drop (length (hsi_prefix ''n1'')) ''configs/n1/hsi/'' = [] \<and>
   GetHSIUserIds ex_env ex_store_bare ex_request = ((200, H_user_ids [''3'']), ex_store_bare) \<and>
   map_of (kvs (ex_store_faulty [False, True])) (count_key ''n1'') = Some ex_count_5 \<and>
   Unmarshal_SubscriberCountData ex_env ex_count_5 = Some \<lparr>SubscriberCount = ''5''\<rparr> \<and>
   Atoi ''5'' = Some 5 \<and>
   GetHSIUserIds ex_env (ex_store_faulty [False, True]) ex_request =
     ((200, H_user_ids [''3'', ''7'', ''abc'']), ex_store_faulty [])"
  by (simp add: ids_eval ex_store_bare_def ex_store_faulty_def)

theorem C5_user_ids_witness:
  "GetHSIUserIds ex_env (ex_store_counted ex_count_5) ex_request =
     ((200, H_user_ids [''3'', ''abc'']), ex_store_counted ex_count_5) \<and>
   GetHSIUserIds ex_env (ex_store_counted ''not json'') ex_request =
     ((200, H_user_ids [''3'', ''7'', ''abc'']), ex_store_counted ''not json'') \<and>
   GetHSIUserIds ex_env (ex_store_faulty [False, True]) ex_request =
     ((200, H_user_ids [''3'', ''7'', ''abc'']), ex_store_faulty [])"
proof -
  have node: "param_nodeId ex_request \<noteq> []"
    by (simp add: ex_request_def)
  have healthy: "faults (ex_store_counted v) = []" for v
    by (simp add: ex_store_counted_def)
  have nums: "Atoi ''5'' = Some 5" "Atoi ''3'' = Some 3" "Atoi ''7'' = Some 7" "Atoi ''abc'' = None"
    by (simp_all add: Atoi_def ParseInt_def is_digit_def digits_val_def digit_val_def)
  have dec: "Unmarshal_SubscriberCountData ex_env ex_count_5 = Some \<lparr>SubscriberCount = ''5''\<rparr>"
    "Unmarshal_SubscriberCountData ex_env ''not json'' = None"
    by (simp_all add: ex_env_def ex_count_5_def ex_count_minus_5_def)
  have store: "kvs (ex_store_counted v) =
      [(''user_counts/n1/'', v), (''configs/n1/hsi/7'', ''{}''),
       (''configs/n1/hsi/abc'', ''{}''), (''configs/n1/hsi/3'', ''{}'')]"
    "kvs (ex_store_faulty fs) = kvs (ex_store_counted ex_count_5)" for v fs
    by (simp_all add: ex_store_counted_def ex_store_faulty_def)
  have keys: "param_nodeId ex_request = ''n1''" "hsi_prefix ''n1'' = ''configs/n1/hsi/''"
    "count_key ''n1'' = ''user_counts/n1/''"
    by (simp_all add: ex_request_def hsi_prefix_def count_key_def)
  note a = C5_user_ids [where E = ex_env, OF node
      etcd_Get_WithPrefix_no_faults [OF healthy [of ex_count_5]] etcd_Get_no_faults [OF healthy [of ex_count_5]]]
  have 1: "GetHSIUserIds ex_env (ex_store_counted ex_count_5) ex_request =
     ((200, H_user_ids [''3'', ''abc'']), ex_store_counted ex_count_5)"
    using a by (simp add: keys store HasPrefix_def dec nums)
  note b = C5_user_ids [where E = ex_env, OF node
      etcd_Get_WithPrefix_no_faults [OF healthy [of "''not json''"]] etcd_Get_no_faults [OF healthy [of "''not json''"]]]
  have 2: "GetHSIUserIds ex_env (ex_store_counted ''not json'') ex_request =
     ((200, H_user_ids [''3'', ''7'', ''abc'']), ex_store_counted ''not json'')"
    using b by (simp add: keys store HasPrefix_def dec nums)
  have listing: "etcd_Get_WithPrefix (ex_store_faulty [False, True]) (hsi_prefix (param_nodeId ex_request)) =
      (Inr (sort_key fst (filter (\<lambda>kv. HasPrefix (fst kv) (hsi_prefix (param_nodeId ex_request)))
         (kvs (ex_store_faulty [True])))), ex_store_faulty [True])"
    by (simp add: etcd_Get_WithPrefix_def next_fault_def ex_store_faulty_def)
  have count: "etcd_Get (ex_store_faulty [True]) (count_key (param_nodeId ex_request)) =
      (Inl EtcdError, ex_store_faulty [])"
    by (simp add: etcd_Get_def next_fault_def ex_store_faulty_def)
  note c = C5_user_ids [where E = ex_env, OF node listing count]
  have 3: "GetHSIUserIds ex_env (ex_store_faulty [False, True]) ex_request =
     ((200, H_user_ids [''3'', ''7'', ''abc'']), ex_store_faulty [])"
    using c by (simp add: keys store HasPrefix_def)
  from 1 2 3 show ?thesis by simp
qed

section \<open>Authentication middleware: the order of the checks\<close>

text \<open>
  C7. On a protected route the middleware answers 401 when the Authorization header is
  missing, 401 when the token does not verify, 500 when the read of
  \<open>token_blacklist/{token}\<close> fails, 401 when that read finds an entry, and it lets the
  request through exactly when the header is there, the token verifies and the read
  succeeds and finds nothing; a failed read never lets the request through.
\<close>

theorem C7_auth_middleware:
  fixes c :: request
  defines "h \<equiv> header_Authorization c"
  shows "(h = [] \<longrightarrow>
            AuthMiddlewareWithBlacklist E st c =
              (Aborted (401, H_error ''Missing Authorization header''), st)) \<and>
         (h \<noteq> [] \<and> \<not> (\<exists>token. validateToken E h = Inr token \<and> Valid token) \<longrightarrow>
            AuthMiddlewareWithBlacklist E st c = (Aborted (401, H_error ''Invalid token''), st)) \<and>
         (\<forall>token err st'.
            h \<noteq> [] \<and> validateToken E h = Inr token \<and> Valid token \<and>
            etcd_Get st (''token_blacklist/'' @ h) = (Inl err, st') \<longrightarrow>
            AuthMiddlewareWithBlacklist E st c =
              (Aborted (500, H_error ''Authentication service unavailable''), st')) \<and>
         (\<forall>token Kvs st'.
            h \<noteq> [] \<and> validateToken E h = Inr token \<and> Valid token \<and>
            etcd_Get st (''token_blacklist/'' @ h) = (Inr Kvs, st') \<and> Kvs \<noteq> [] \<longrightarrow>
            AuthMiddlewareWithBlacklist E st c =
              (Aborted (401, H_error ''Token has been revoked''), st')) \<and>
         (fst (AuthMiddlewareWithBlacklist E st c) = Next \<longleftrightarrow>
            h \<noteq> [] \<and> (\<exists>token. validateToken E h = Inr token \<and> Valid token) \<and>
            (\<exists>st'. etcd_Get st (''token_blacklist/'' @ h) = (Inr [], st')))"
  unfolding h_def AuthMiddlewareWithBlacklist_def Let_def
  by (auto split: sum.splits prod.splits)

theorem C7_auth_middleware_witness:
  "AuthMiddlewareWithBlacklist ex_env \<lparr>kvs = [], faults = []\<rparr>
       (ex_request\<lparr>header_Authorization := []\<rparr>) =
     (Aborted (401, H_error ''Missing Authorization header''), \<lparr>kvs = [], faults = []\<rparr>) \<and>
   AuthMiddlewareWithBlacklist ex_env \<lparr>kvs = [], faults = []\<rparr>
       (ex_request\<lparr>header_Authorization := ''forged''\<rparr>) =
     (Aborted (401, H_error ''Invalid token''), \<lparr>kvs = [], faults = []\<rparr>) \<and>
   AuthMiddlewareWithBlacklist ex_env \<lparr>kvs = [], faults = [True]\<rparr> ex_request =
     (Aborted (500, H_error ''Authentication service unavailable''), \<lparr>kvs = [], faults = []\<rparr>) \<and>
   AuthMiddlewareWithBlacklist ex_env
       \<lparr>kvs = [(''token_blacklist/token-of-admin'', ''revoked'')], faults = []\<rparr> ex_request =
     (Aborted (401, H_error ''Token has been revoked''),
      \<lparr>kvs = [(''token_blacklist/token-of-admin'', ''revoked'')], faults = []\<rparr>) \<and>
   fst (AuthMiddlewareWithBlacklist ex_env \<lparr>kvs = [], faults = []\<rparr> ex_request) = Next"
proof -
  let ?ok = "\<lparr>kvs = [], faults = []\<rparr>"
  let ?down = "\<lparr>kvs = [], faults = [True]\<rparr>"
  let ?revoked = "\<lparr>kvs = [(''token_blacklist/token-of-admin'', ''revoked'')], faults = []\<rparr>"
  have tok: "validateToken ex_env ''token-of-admin'' = Inr \<lparr>Valid = True, claim_username = Some ''admin''\<rparr>"
    by (simp add: ex_env_def)
  have bad: "\<not> (\<exists>token. validateToken ex_env ''forged'' = Inr token \<and> Valid token)"
    by (simp add: ex_env_def)
  have g_ok: "etcd_Get ?ok ''token_blacklist/token-of-admin'' = (Inr [], ?ok)"
    by (simp add: etcd_Get_def next_fault_def)
  have g_down: "etcd_Get ?down ''token_blacklist/token-of-admin'' = (Inl EtcdError, ?ok)"
    by (simp add: etcd_Get_def next_fault_def)
  have g_rev: "etcd_Get ?revoked ''token_blacklist/token-of-admin'' =
      (Inr [(''token_blacklist/token-of-admin'', ''revoked'')], ?revoked)"
    by (simp add: etcd_Get_def next_fault_def)
  show ?thesis
    using C7_auth_middleware [of "ex_request\<lparr>header_Authorization := []\<rparr>" ex_env ?ok]
      C7_auth_middleware [of "ex_request\<lparr>header_Authorization := ''forged''\<rparr>" ex_env ?ok]
      C7_auth_middleware [of ex_request ex_env ?down]
      C7_auth_middleware [of ex_request ex_env ?revoked]
      C7_auth_middleware [of ex_request ex_env ?ok]
      tok bad g_ok g_down g_rev
    by (simp add: ex_request_def)
qed

section \<open>Reading the failed-event history\<close>










lemmas events_eval =
  GetAllFailedEvents_def GetFailedEvents_def etcd_Get_WithPrefix_SortDescend_def next_fault_def
  HasPrefix_def ex_env_def ex_request_def ex_history_def
  ex_event_dial_def ex_event_hangup_def ex_event_untyped_def Let_def





section \<open>Stopping a monitor\<close>

lemma Sprintf_d_0: "Sprintf_d 0 = ''0''"
  by (simp add: Sprintf_d_def dec_digits.simps)

lemma Sprintf_d_1: "Sprintf_d 1 = ''1''"
  by (simp add: Sprintf_d_def dec_digits.simps)

lemma deleteNicMetrics_apply:
  "deleteNicMetrics reg uuid nicIndex (vec, lvs) =
     (if vec \<in> {rxPackets, txPackets, rxBytes, txBytes, rxErrors, txErrors, rxDropped} \<and>
         lvs = [uuid, nicIndex]
      then None else reg (vec, lvs))"
  by (simp add: deleteNicMetrics_def DeleteLabelValues_def)

lemma deleteNodeMetrics_unfold:
  "deleteNodeMetrics reg uuid = deleteNicMetrics (deleteNicMetrics reg uuid ''0'') uuid ''1''"
  by (simp add: deleteNodeMetrics_def Sprintf_d_0 Sprintf_d_1)

lemma deleteNodeMetrics_apply:
  "deleteNodeMetrics reg uuid (vec, lvs) =
     (if vec \<in> {rxPackets, txPackets, rxBytes, txBytes, rxErrors, txErrors, rxDropped} \<and>
         (lvs = [uuid, ''0''] \<or> lvs = [uuid, ''1''])
      then None else reg (vec, lvs))"
  unfolding deleteNodeMetrics_unfold deleteNicMetrics_apply by auto

lemma StopMonitoring_metrics:
  "monitors nmm uuid \<noteq> None \<Longrightarrow>
     metrics (StopMonitoring nmm uuid) (vec, lvs) =
       (if vec \<in> {rxPackets, txPackets, rxBytes, txBytes, rxErrors, txErrors, rxDropped} \<and>
           (lvs = [uuid, ''0''] \<or> lvs = [uuid, ''1''])
        then None else metrics nmm (vec, lvs))"
  by (auto simp: StopMonitoring_def stopMonitoringLocked_def deleteNodeMetrics_apply)

lemma ex_scraped_values:
  "ex_scraped (perUserRxPackets, [''n1'', ''0'', ''1'']) = Some 7"
  "ex_scraped (unknownUserRxPackets, [''n1'', ''0'']) = Some 3"
  "ex_scraped (perPPPoESessionRxPackets, [''n1'', ''1'']) = Some 5"
  "ex_scraped (perUserDhcpCurLeaseCount, [''n1'', ''1'']) = Some 2"
  "ex_scraped (rxPackets, [''n1'', ''0'']) = Some 10"
  by (simp_all add: ex_scraped_def getNicCounter_def nic_step_def per_user_loop.simps index_def
      set_nic_gauges_def set_user_gauges_def set_unknown_gauges_def WithLabelValues_Set_def
      Sprintf_d_def dec_digits.simps ex_monitor_def ex_nic_def ex_user_stat_def Let_def)

text \<open>
  C2 fails on the code. \<open>deleteNodeMetrics\<close> deletes the seven NIC-indexed series of
  NIC 0 and of NIC 1 and no other (\<open>StopMonitoring_metrics\<close>). Here node \<open>n1\<close> is
  scraped once, its PPPoE-session and DHCP-lease gauges are set as the two other scrapes
  set them, and monitoring is stopped: the monitor and the NIC series are gone, the
  per-user, unknown-user, PPPoE-session and DHCP-lease series of \<open>n1\<close> are still there.
\<close>

theorem C2_stop_leaves_series:
  "fst (getNicCounter Map.empty ex_monitor (Inr [ex_nic [ex_user_stat 1 7, ex_user_stat 0 3]])) = None \<and>
   metrics ex_manager (rxPackets, [''n1'', ''0'']) = Some 10 \<and>
   monitors (StopMonitoring ex_manager ''n1'') ''n1'' = None \<and>
   metrics (StopMonitoring ex_manager ''n1'') (rxPackets, [''n1'', ''0'']) = None \<and>
   metrics (StopMonitoring ex_manager ''n1'') (perUserRxPackets, [''n1'', ''0'', ''1'']) = Some 7 \<and>
   metrics (StopMonitoring ex_manager ''n1'') (unknownUserRxPackets, [''n1'', ''0'']) = Some 3 \<and>
   metrics (StopMonitoring ex_manager ''n1'') (perPPPoESessionRxPackets, [''n1'', ''1'']) = Some 5 \<and>
   metrics (StopMonitoring ex_manager ''n1'') (perUserDhcpCurLeaseCount, [''n1'', ''1'']) = Some 2"
proof -
  have scrape: "fst (getNicCounter Map.empty ex_monitor (Inr [ex_nic [ex_user_stat 1 7, ex_user_stat 0 3]])) = None"
    by (simp add: getNicCounter_def nic_step_def per_user_loop.simps index_def ex_nic_def
        ex_user_stat_def Let_def)
  have mon: "monitors ex_manager ''n1'' \<noteq> None" "metrics ex_manager = ex_scraped"
    by (simp_all add: ex_manager_def)
  have gone: "monitors (StopMonitoring ex_manager ''n1'') ''n1'' = None"
    by (simp add: StopMonitoring_def stopMonitoringLocked_def ex_manager_def)
  show ?thesis
    using scrape gone
    by (simp add: StopMonitoring_metrics [OF mon(1)] mon(2) ex_scraped_values)
qed

section \<open>Scraping the NIC counters: index bounds\<close>

lemma per_user_loop_in_bounds:
  "0 \<le> i \<Longrightarrow> fst (per_user_loop reg uuid nicIndex stats i) = None"
proof (induction reg uuid nicIndex stats i rule: per_user_loop.induct)
  case (1 reg uuid nicIndex stats i)
  show ?case
  proof (cases "i < int (length stats) - 1")
    case True
    with "1.prems" have idx: "index stats i = Inr (stats ! nat i)"
      by (simp add: index_def)
    from "1.IH" [OF True idx] "1.prems" True idx show ?thesis
      by (simp add: per_user_loop.simps [of reg uuid nicIndex stats i])
  next
    case False
    then show ?thesis
      by (simp add: per_user_loop.simps [of reg uuid nicIndex stats i])
  qed
qed

lemma nic_step_panics_iff:
  "fst (nic_step reg uuid i stat) = Some IndexOutOfRange \<longleftrightarrow> PerUserStats stat = []"
proof -
  let ?r1 = "set_nic_gauges reg uuid (Sprintf_d (int i)) stat"
  obtain e r where pl: "per_user_loop ?r1 uuid (Sprintf_d (int i)) (PerUserStats stat) 0 = (e, r)"
    by fastforce
  with per_user_loop_in_bounds [of 0 ?r1 uuid "Sprintf_d (int i)" "PerUserStats stat"]
  have e: "e = None" by simp
  show ?thesis
    unfolding nic_step_def Let_def pl e
    by (cases "PerUserStats stat") (simp_all add: index_def)
qed

text \<open>
  C9 fails on the code. For a NIC stat whose \<open>PerUserStats\<close> list is empty the loop over
  the per-user slots does nothing and the read of the unknown-user slot, slot \<open>len - 1\<close>,
  is the read of slot \<open>-1\<close>: \<open>getNicCounter\<close> panics, the NIC gauges already set. On
  every list that is not empty all reads are within bounds (\<open>nic_step_panics_iff\<close>).
\<close>

theorem C9_empty_per_user_stats_panics:
  "getNicCounter Map.empty ex_monitor (Inr [ex_nic []]) =
     (Some IndexOutOfRange, set_nic_gauges Map.empty ''n1'' ''0'' (ex_nic []))"
  by (simp add: getNicCounter_def nic_step_def per_user_loop.simps index_def ex_monitor_def
      ex_nic_def Sprintf_d_def dec_digits.simps Let_def)

section \<open>The two unregister paths\<close>

lemmas unregister_eval =
  GrpcServer_UnregisterNode_def RestServer_UnregisterNode_def etcd_Get_def etcd_Delete_def
  next_fault_def StopMonitoring_def stopMonitoringLocked_def ex_grpc_def ex_request_def Let_def

text \<open>
  C1 fails on the code. Both paths fail without a record at \<open>nodes/{uuid}\<close> and both
  delete the key (\<open>unregister_paths_same_store\<close>), but only the gRPC path stops the
  monitor: the REST server has no monitor manager to call. Here node \<open>n1\<close> is
  registered and monitored; after the gRPC call the monitor map has no entry for it,
  after the REST call the key is gone and the monitor map is what it was.
\<close>

theorem C1_rest_unregister_keeps_monitor:
  "fst (GrpcServer_UnregisterNode ex_grpc ''n1'') = None \<and>
   etcd (snd (GrpcServer_UnregisterNode ex_grpc ''n1'')) = \<lparr>kvs = [], faults = []\<rparr> \<and>
   monitors (nodeMonitorMgr (snd (GrpcServer_UnregisterNode ex_grpc ''n1''))) ''n1'' = None \<and>
   RestServer_UnregisterNode (etcd ex_grpc) ex_request =
     ((200, H_message ''Node unregistered successfully''), \<lparr>kvs = [], faults = []\<rparr>) \<and>
   monitors (nodeMonitorMgr ex_grpc) ''n1'' = Some ex_monitor"
  by (simp add: unregister_eval)

lemma unregister_paths_same_store:
  "etcd (snd (GrpcServer_UnregisterNode s uuid)) =
     snd (RestServer_UnregisterNode (etcd s) (c\<lparr>param_uuid := uuid\<rparr>)) \<and>
   (fst (GrpcServer_UnregisterNode s uuid) = None \<longleftrightarrow>
      fst (fst (RestServer_UnregisterNode (etcd s) (c\<lparr>param_uuid := uuid\<rparr>))) = 200)"
  by (auto simp: GrpcServer_UnregisterNode_def RestServer_UnregisterNode_def Let_def
      split: prod.splits sum.splits)

lemma grpc_unregister_stops_monitor:
  "fst (GrpcServer_UnregisterNode s uuid) = None \<Longrightarrow>
     monitors (nodeMonitorMgr (snd (GrpcServer_UnregisterNode s uuid))) uuid = None"
  by (auto simp: GrpcServer_UnregisterNode_def StopMonitoring_def stopMonitoringLocked_def Let_def
      split: prod.splits sum.splits if_splits option.splits)

end
